theory Spec2Isabelle
  imports Complex_Main
begin

section \<open>Python values, exceptions and arrays\<close>

text \<open>
  The two frontends (\<^verbatim>\<open>yt/frontends/exodus_ii/data_structures.py\<close> and
  \<^verbatim>\<open>yt/frontends/ytdata/data_structures.py\<close>) are glue code over three libraries:
  netCDF4 (through \<^verbatim>\<open>NetCDF4FileHandler\<close>), h5py and numpy. A call that can raise
  returns \<open>py_error + 'a\<close>, with \<open>Inl\<close> carrying the exception class, so that every
  \<^verbatim>\<open>try\<close>/\<^verbatim>\<open>except\<close> of the source is a case distinction on the result.
\<close>

datatype py_error =
    KeyError | TypeError | IndexError | ValueError | AttributeError
  | UnboundLocalError | IOError | OSError | RuntimeError

text \<open>Sequencing of calls that may raise: the first exception ends the computation.\<close>

definition bind :: "py_error + 'a \<Rightarrow> ('a \<Rightarrow> py_error + 'b) \<Rightarrow> py_error + 'b" where
  "bind m f = (case m of Inl e \<Rightarrow> Inl e | Inr v \<Rightarrow> f v)"

text \<open>\<^verbatim>\<open>except (KeyError, TypeError)\<close>: the two classes the Exodus II readers recover from.\<close>

definition key_or_type_error :: "py_error \<Rightarrow> bool" where
  "key_or_type_error e = (e = KeyError \<or> e = TypeError)"

text \<open>
  A numpy array: its shape and its cells in row-major order. A netCDF variable is read as
  the numpy array of its values: both have a shape and a length, are indexed and iterated
  along the first axis, and refuse an index that is out of range. The cell type \<open>'a\<close>
  stands for numpy's scalars of any dtype; the casts between dtypes are parameters of the
  functions that use them.
\<close>

datatype 'a ndarray = Ndarray (shape: "nat list") (cells: "'a list")

text \<open>
  The Python values that are stored in \<^verbatim>\<open>self.parameters\<close> or in the attributes of an
  HDF5 file.
\<close>

datatype 'a pyval =
    NDArray "'a ndarray"
  | PyInt int
  | PyFloat real
  | PyStr string
  | PyNone
  | PyBool bool
  | PyList "'a pyval list"
  | PyDict "(string \<times> 'a pyval) list"

subsection \<open>Dictionaries and sequences\<close>

text \<open>\<^verbatim>\<open>d[key]\<close> on a \<^verbatim>\<open>dict\<close>: a missing key raises \<^verbatim>\<open>KeyError\<close>.\<close>

definition dict_getitem :: "('k \<rightharpoonup> 'v) \<Rightarrow> 'k \<Rightarrow> py_error + 'v" where
  "dict_getitem d key = (case d key of None \<Rightarrow> Inl KeyError | Some v \<Rightarrow> Inr v)"

text \<open>A list comprehension whose body may raise: the first exception ends it.\<close>

fun mapM :: "('x \<Rightarrow> py_error + 'y) \<Rightarrow> 'x list \<Rightarrow> py_error + 'y list" where
  "mapM f [] = Inr []"
| "mapM f (x # xs) = bind (f x) (\<lambda>y. bind (mapM f xs) (\<lambda>ys. Inr (y # ys)))"

text \<open>Python's index normalisation for a sequence of length \<open>n\<close>: negative indices count
  from the end, and an index outside \<open>-n \<le> i < n\<close> raises \<^verbatim>\<open>IndexError\<close>.\<close>

definition py_index :: "nat \<Rightarrow> int \<Rightarrow> py_error + nat" where
  "py_index n i =
     (let j = (if i < 0 then i + int n else i)
      in if 0 \<le> j \<and> j < int n then Inr (nat j) else Inl IndexError)"

text \<open>\<^verbatim>\<open>"%d" % n\<close> for a natural number.\<close>

fun str_of_nat :: "nat \<Rightarrow> string" where
  "str_of_nat n =
     (if n < 10 then [''0123456789'' ! n]
      else str_of_nat (n div 10) @ [''0123456789'' ! (n mod 10)])"

declare str_of_nat.simps [simp del]

subsection \<open>numpy arrays\<close>

text \<open>
  An array is well formed when it has as many cells as its shape says; every array that
  numpy or netCDF4 builds is.
\<close>

definition wf_ndarray :: "'a ndarray \<Rightarrow> bool" where
  "wf_ndarray a = (length (cells a) = prod_list (shape a))"

text \<open>The sub-array at position \<open>i\<close> of the first axis.\<close>

definition item :: "'a ndarray \<Rightarrow> nat \<Rightarrow> 'a ndarray" where
  "item a i =
     (let s = tl (shape a); sz = prod_list s
      in Ndarray s (take sz (drop (i * sz) (cells a))))"

text \<open>\<^verbatim>\<open>a[i]\<close> with an integer: a 0-d array cannot be indexed.\<close>

definition ndarray_getitem :: "'a ndarray \<Rightarrow> int \<Rightarrow> py_error + 'a ndarray" where
  "ndarray_getitem a i =
     (case shape a of
        [] \<Rightarrow> Inl IndexError
      | n # s \<Rightarrow> bind (py_index n i) (\<lambda>j. Inr (item a j)))"

text \<open>\<^verbatim>\<open>for v in a\<close>: the sub-arrays along the first axis; a 0-d array is not iterable.\<close>

definition ndarray_iter :: "'a ndarray \<Rightarrow> py_error + 'a ndarray list" where
  "ndarray_iter a =
     (case shape a of
        [] \<Rightarrow> Inl TypeError
      | n # s \<Rightarrow> Inr (map (item a) [0..<n]))"

text \<open>\<^verbatim>\<open>a.shape[0]\<close>: the shape of a 0-d array is the empty tuple.\<close>

definition ndarray_shape0 :: "'a ndarray \<Rightarrow> py_error + nat" where
  "ndarray_shape0 a = (case shape a of [] \<Rightarrow> Inl IndexError | n # s \<Rightarrow> Inr n)"

text \<open>\<^verbatim>\<open>len(a)\<close>.\<close>

definition ndarray_len :: "'a ndarray \<Rightarrow> py_error + nat" where
  "ndarray_len a = (case shape a of [] \<Rightarrow> Inl TypeError | n # s \<Rightarrow> Inr n)"

text \<open>\<^verbatim>\<open>a.astype(t)\<close>, with the cast of one cell given.\<close>

definition astype :: "('a \<Rightarrow> 'a) \<Rightarrow> 'a ndarray \<Rightarrow> 'a ndarray" where
  "astype cast a = Ndarray (shape a) (map cast (cells a))"

text \<open>
  \<^verbatim>\<open>a.transpose()\<close> reverses the axes. \<open>unravel s k\<close> is the multi-index of the \<open>k\<close>-th
  cell of an array of shape \<open>s\<close>, \<open>ravel s is\<close> the position of the cell at multi-index
  \<open>is\<close>. In a well-formed array every position that is read exists.
\<close>

fun unravel :: "nat list \<Rightarrow> nat \<Rightarrow> nat list" where
  "unravel [] k = []"
| "unravel (n # s) k = (k div prod_list s) # unravel s (k mod prod_list s)"

fun ravel :: "nat list \<Rightarrow> nat list \<Rightarrow> nat" where
  "ravel (n # s) (i # is) = i * prod_list s + ravel s is"
| "ravel s is = 0"

definition transpose_nd :: "'a ndarray \<Rightarrow> 'a ndarray" where
  "transpose_nd a =
     Ndarray (rev (shape a))
       (map (\<lambda>k. cells a ! ravel (shape a) (rev (unravel (rev (shape a)) k)))
          [0..<prod_list (shape a)])"

text \<open>
  \<^verbatim>\<open>np.array([a0, a1, ...])\<close> of arrays of one shape stacks them along a new first axis;
  of no array at all it is the empty 1-d array. Arrays of different shapes are refused with
  \<^verbatim>\<open>ValueError\<close> (numpy before 1.24 built an array of objects instead, which this model
  has no cells for).
\<close>

definition np_array :: "'a ndarray list \<Rightarrow> py_error + 'a ndarray" where
  "np_array xs =
     (case xs of
        [] \<Rightarrow> Inr (Ndarray [0] [])
      | x # rest \<Rightarrow>
          if list_all (\<lambda>y. shape y = shape x) rest
          then Inr (Ndarray (length xs # shape x) (concat (map cells xs)))
          else Inl ValueError)"

text \<open>
  \<^verbatim>\<open>a[-1, :]\<close>: the last sub-array along the first axis. Two indices need two axes, and
  the first axis must not be empty.
\<close>

definition last_step :: "'a ndarray \<Rightarrow> py_error + 'a ndarray" where
  "last_step a =
     (if length (shape a) < 2 then Inl IndexError else ndarray_getitem a (- 1))"

text \<open>
  \<^verbatim>\<open>a[-1, idx, ...]\<close> with an integer array \<open>idx\<close>: in the last sub-array along the first
  axis, the sub-arrays selected by the entries of \<open>idx\<close>, in the shape of \<open>idx\<close>. Each
  entry is normalised like a Python index.
\<close>

definition last_step_take :: "'a ndarray \<Rightarrow> nat list \<Rightarrow> int list \<Rightarrow> py_error + 'a ndarray" where
  "last_step_take a idx_shape idx =
     bind (last_step a) (\<lambda>row.
     bind (mapM (ndarray_getitem row) idx) (\<lambda>picked.
       Inr (Ndarray (idx_shape @ tl (shape row)) (concat (map cells picked)))))"

text \<open>
  \<^verbatim>\<open>a.min(axis=0)\<close> and \<^verbatim>\<open>a.max(axis=0)\<close>: cell \<open>k\<close> of the result is the least
  (greatest) of the cells \<open>k\<close> of the sub-arrays along the first axis. A 0-d array has no
  axis 0 and an empty first axis has no minimum: both raise \<^verbatim>\<open>ValueError\<close>. The cells
  are linearly ordered, as the floating-point numbers other than NaN are.
\<close>

definition column :: "'a ndarray \<Rightarrow> nat \<Rightarrow> 'a list" where
  "column a k = map (\<lambda>i. cells a ! (i * prod_list (tl (shape a)) + k)) [0..<hd (shape a)]"

definition reduce_axis0 :: "('a \<Rightarrow> 'a \<Rightarrow> 'a) \<Rightarrow> 'a ndarray \<Rightarrow> py_error + 'a ndarray" where
  "reduce_axis0 f a =
     (case shape a of
        [] \<Rightarrow> Inl ValueError
      | n # s \<Rightarrow>
          if n = 0 then Inl ValueError
          else Inr (Ndarray s
                 (map (\<lambda>k. fold f (tl (column a k)) (hd (column a k))) [0..<prod_list s])))"

subsection \<open>Operations on Python values\<close>

text \<open>\<^verbatim>\<open>x[i]\<close> with an integer \<open>i\<close>. A character of a string is a string; the keys of
  the dictionaries here are strings, so an integer is never among them.\<close>

definition subscript_int :: "'a pyval \<Rightarrow> int \<Rightarrow> py_error + 'a pyval" where
  "subscript_int x i =
     (case x of
        NDArray a \<Rightarrow> bind (ndarray_getitem a i) (\<lambda>r. Inr (NDArray r))
      | PyList xs \<Rightarrow> bind (py_index (length xs) i) (\<lambda>j. Inr (xs ! j))
      | PyStr s \<Rightarrow> bind (py_index (length s) i) (\<lambda>j. Inr (PyStr [s ! j]))
      | PyDict d \<Rightarrow> Inl KeyError
      | _ \<Rightarrow> Inl TypeError)"

text \<open>\<^verbatim>\<open>x[key]\<close> with a string key: a dictionary looks it up, numpy refuses the index
  with \<^verbatim>\<open>IndexError\<close>, everything else raises \<^verbatim>\<open>TypeError\<close>.\<close>

definition subscript_str :: "'a pyval \<Rightarrow> string \<Rightarrow> py_error + 'a pyval" where
  "subscript_str x key =
     (case x of
        PyDict d \<Rightarrow> dict_getitem (map_of d) key
      | NDArray a \<Rightarrow> Inl IndexError
      | _ \<Rightarrow> Inl TypeError)"

text \<open>\<^verbatim>\<open>for v in x\<close>.\<close>

definition iterate :: "'a pyval \<Rightarrow> py_error + 'a pyval list" where
  "iterate x =
     (case x of
        NDArray a \<Rightarrow> bind (ndarray_iter a) (\<lambda>rs. Inr (map NDArray rs))
      | PyList xs \<Rightarrow> Inr xs
      | PyStr s \<Rightarrow> Inr (map (\<lambda>c. PyStr [c]) s)
      | PyDict d \<Rightarrow> Inr (map (\<lambda>k. PyStr k) (remdups (map fst d)))
      | _ \<Rightarrow> Inl TypeError)"

text \<open>\<^verbatim>\<open>x.shape[0]\<close>: only arrays have a shape.\<close>

definition shape0 :: "'a pyval \<Rightarrow> py_error + nat" where
  "shape0 x = (case x of NDArray a \<Rightarrow> ndarray_shape0 a | _ \<Rightarrow> Inl AttributeError)"

text \<open>\<^verbatim>\<open>len(x)\<close>.\<close>

definition py_len :: "'a pyval \<Rightarrow> py_error + nat" where
  "py_len x =
     (case x of
        NDArray a \<Rightarrow> ndarray_len a
      | PyList xs \<Rightarrow> Inr (length xs)
      | PyStr s \<Rightarrow> Inr (length s)
      | PyDict d \<Rightarrow> Inr (length (remdups (map fst d)))
      | _ \<Rightarrow> Inl TypeError)"

text \<open>\<^verbatim>\<open>range(x)\<close>: \<^verbatim>\<open>bool\<close> is a subclass of \<^verbatim>\<open>int\<close>.\<close>

definition py_range :: "'a pyval \<Rightarrow> py_error + nat list" where
  "py_range x =
     (case x of
        PyInt n \<Rightarrow> Inr [0..<nat n]
      | PyBool b \<Rightarrow> Inr [0..<(if b then 1 else 0)]
      | _ \<Rightarrow> Inl TypeError)"

text \<open>
  \<^verbatim>\<open>x[:]\<close> where the source goes on with a numpy method or with \<^verbatim>\<open>np.array\<close>:
  \<^verbatim>\<open>[:]\<close> reads a variable whole. The values under the keys that are read this way
  are arrays. Of the other values, a list and a string have the slice and not the method
  that follows (\<^verbatim>\<open>AttributeError\<close>), and the rest cannot be sliced
  (\<^verbatim>\<open>TypeError\<close>).
\<close>

definition slice_all :: "'a pyval \<Rightarrow> py_error + 'a ndarray" where
  "slice_all x =
     (case x of
        NDArray a \<Rightarrow> Inr a
      | PyList xs \<Rightarrow> Inl AttributeError
      | PyStr s \<Rightarrow> Inl AttributeError
      | _ \<Rightarrow> Inl TypeError)"

text \<open>
  \<^verbatim>\<open>x == s\<close> for a string literal \<open>s\<close>, as the truth value that \<^verbatim>\<open>in\<close> and
  \<^verbatim>\<open>if\<close> take of it. Strings are compared by their characters. numpy compares an
  array with a string cell by cell, \<open>np_equal\<close> being its comparison of one cell with a
  string, and the answer is an array of booleans: its truth value is that of its only
  cell, \<^verbatim>\<open>False\<close> (with a deprecation warning) when it has no cell, and
  \<^verbatim>\<open>ValueError\<close> (the truth value of an array with more than one element is
  ambiguous) when it has two or more. A value of any other type is not equal to a string.
\<close>

definition py_eq_str :: "('a \<Rightarrow> string \<Rightarrow> bool) \<Rightarrow> 'a pyval \<Rightarrow> string \<Rightarrow> py_error + bool" where
  "py_eq_str np_equal x s =
     (case x of
        PyStr t \<Rightarrow> Inr (t = s)
      | NDArray a \<Rightarrow>
          (case map (\<lambda>c. np_equal c s) (cells a) of
             [] \<Rightarrow> Inr False
           | [b] \<Rightarrow> Inr b
           | b # b' # bs \<Rightarrow> Inl ValueError)
      | _ \<Rightarrow> Inr False)"

text \<open>\<^verbatim>\<open>x in [s0, s1, ...]\<close>: the literals are compared with \<open>x\<close> in their order until
  one is equal; an exception of a comparison ends the search.\<close>

fun py_in :: "('a \<Rightarrow> string \<Rightarrow> bool) \<Rightarrow> 'a pyval \<Rightarrow> string list \<Rightarrow> py_error + bool" where
  "py_in np_equal x [] = Inr False"
| "py_in np_equal x (s # rest) =
     bind (py_eq_str np_equal x s) (\<lambda>b. if b then Inr True else py_in np_equal x rest)"

text \<open>A value that can be a dictionary key.\<close>

definition hashable :: "'a pyval \<Rightarrow> bool" where
  "hashable x = (case x of NDArray a \<Rightarrow> False | PyList xs \<Rightarrow> False | PyDict d \<Rightarrow> False | _ \<Rightarrow> True)"

section \<open>The dataset classes\<close>

text \<open>
  The attributes of the host framework's \<^verbatim>\<open>Dataset\<close> that the two frontends assign. The
  subclasses extend the record, as they extend the class.
\<close>

record 'a Dataset =
  parameter_filename :: string
  parameters :: "string \<rightharpoonup> 'a pyval"
  dimensionality :: int
  refine_by :: int
  unique_identifier :: "'a pyval"
  cosmological_simulation :: "'a pyval"
  current_time :: "'a pyval"
  current_redshift :: "'a pyval"
  hubble_constant :: "'a pyval"
  omega_matter :: "'a pyval"
  omega_lambda :: "'a pyval"
  domain_left_edge :: "'a pyval"
  domain_right_edge :: "'a pyval"
  periodicity :: "bool \<times> bool \<times> bool"
  domain_dimensions :: "int list"

section \<open>The YTData (HDF5) frontend\<close>

text \<open>
  What \<^verbatim>\<open>h5py.File(filename, "r")\<close> gives when it succeeds: the attribute mapping
  \<^verbatim>\<open>f.attrs\<close> and the names of the top-level groups \<^verbatim>\<open>f.keys()\<close>. Opening is a
  parameter \<open>h5py_File\<close> of type \<open>string \<Rightarrow> py_error + 'a h5file\<close>: h5py raises for
  a path that does not exist or is not an HDF5 file.
\<close>

record 'a h5file =
  attrs :: "string \<rightharpoonup> 'a pyval"
  h5keys :: "string list"

record 'a YTDataContainerDataset = "'a Dataset" +
  n_ref :: int
  over_refine_factor :: int
  particle_types_raw :: "string list"
  particle_types :: "string list"
  filename_template :: string
  file_count :: int

text \<open>\<^verbatim>\<open>str.endswith\<close>.\<close>

definition endswith :: "string \<Rightarrow> string \<Rightarrow> bool" where
  "endswith s suf = (length suf \<le> length s \<and> drop (length s - length suf) s = suf)"

text \<open>
  \<^verbatim>\<open>YTDataContainerDataset._is_valid\<close> (lines 94-103), with \<^verbatim>\<open>args[0]\<close> as
  \<open>filename\<close>. There is no \<^verbatim>\<open>try\<close> in the method: an exception of
  \<^verbatim>\<open>h5py.File\<close>, or of the comparison of the attribute with the three string literals,
  leaves it. \<open>np_equal\<close> is numpy's comparison of one cell of an array-valued attribute
  with a string.
\<close>

definition YTDataContainerDataset_is_valid ::
  "(string \<Rightarrow> py_error + 'a h5file) \<Rightarrow> ('a \<Rightarrow> string \<Rightarrow> bool) \<Rightarrow> string
     \<Rightarrow> py_error + bool" where
  "YTDataContainerDataset_is_valid h5py_File np_equal filename =
     (if \<not> endswith filename ''.h5'' then Inr False
      else bind (h5py_File filename) (\<lambda>f.
        if attrs f ''data_type'' \<noteq> None then
          bind (dict_getitem (attrs f) ''data_type'') (\<lambda>v.
          bind (py_in np_equal v [''light_ray'', ''yt_array_data'', ''yt_data_container''])
            (\<lambda>found. if found then Inr True else Inr False))
        else Inr False))"

text \<open>\<^verbatim>\<open>YTGridDataset._is_valid\<close> (lines 128-135): the same probe with one recognised tag.\<close>

definition YTGridDataset_is_valid ::
  "(string \<Rightarrow> py_error + 'a h5file) \<Rightarrow> ('a \<Rightarrow> string \<Rightarrow> bool) \<Rightarrow> string
     \<Rightarrow> py_error + bool" where
  "YTGridDataset_is_valid h5py_File np_equal filename =
     (if \<not> endswith filename ''.h5'' then Inr False
      else bind (h5py_File filename) (\<lambda>f.
        if attrs f ''data_type'' \<noteq> None then
          bind (dict_getitem (attrs f) ''data_type'') (\<lambda>v.
          bind (py_in np_equal v [''yt_grid_data''])
            (\<lambda>found. if found then Inr True else Inr False))
        else Inr False))"

text \<open>
  \<^verbatim>\<open>setattr(self, attr, value)\<close> for the names of the loop of lines 78-81; any other name
  would be an attribute that this record does not hold.
\<close>

definition setattr ::
  "('a, 'z) YTDataContainerDataset_scheme \<Rightarrow> string \<Rightarrow> 'a pyval
     \<Rightarrow> ('a, 'z) YTDataContainerDataset_scheme" where
  "setattr self attr v =
     (if attr = ''cosmological_simulation'' then self\<lparr>cosmological_simulation := v\<rparr>
      else if attr = ''current_time'' then self\<lparr>current_time := v\<rparr>
      else if attr = ''current_redshift'' then self\<lparr>current_redshift := v\<rparr>
      else if attr = ''hubble_constant'' then self\<lparr>hubble_constant := v\<rparr>
      else if attr = ''omega_matter'' then self\<lparr>omega_matter := v\<rparr>
      else if attr = ''omega_lambda'' then self\<lparr>omega_lambda := v\<rparr>
      else if attr = ''domain_left_edge'' then self\<lparr>domain_left_edge := v\<rparr>
      else if attr = ''domain_right_edge'' then self\<lparr>domain_right_edge := v\<rparr>
      else self)"

text \<open>The loop of lines 78-81: \<^verbatim>\<open>hvals[attr]\<close> raises \<^verbatim>\<open>KeyError\<close> at the first name
  that the file does not have.\<close>

fun copy_attrs ::
  "(string \<rightharpoonup> 'a pyval) \<Rightarrow> string list \<Rightarrow> ('a, 'z) YTDataContainerDataset_scheme
     \<Rightarrow> py_error + ('a, 'z) YTDataContainerDataset_scheme" where
  "copy_attrs hvals [] self = Inr self"
| "copy_attrs hvals (attr # rest) self =
     bind (dict_getitem hvals attr) (\<lambda>v. copy_attrs hvals rest (setattr self attr v))"

definition required_attrs :: "string list" where
  "required_attrs =
     [''cosmological_simulation'', ''current_time'', ''current_redshift'',
      ''hubble_constant'', ''omega_matter'', ''omega_lambda'',
      ''domain_left_edge'', ''domain_right_edge'']"

text \<open>\<^verbatim>\<open>1 << n\<close>: a negative shift count raises \<^verbatim>\<open>ValueError\<close>.\<close>

definition lshift1 :: "int \<Rightarrow> py_error + int" where
  "lshift1 n = (if n < 0 then Inl ValueError else Inr (2 ^ nat n))"

text \<open>
  \<^verbatim>\<open>YTDataContainerDataset._parse_parameter_file\<close> (lines 66-86). \<open>st_ctime path\<close> is
  \<^verbatim>\<open>os.stat(path)[stat.ST_CTIME]\<close>, in whole seconds. The local \<^verbatim>\<open>prefix\<close> of line 75
  is never used. \<^verbatim>\<open>np.ones(3, "int32") * nz\<close> is kept as the list of three \<open>nz\<close>,
  without numpy's integer width.
\<close>

definition YTDataContainerDataset_parse_parameter_file ::
  "(string \<Rightarrow> py_error + 'a h5file) \<Rightarrow> (string \<Rightarrow> py_error + int)
     \<Rightarrow> ('a, 'z) YTDataContainerDataset_scheme
     \<Rightarrow> py_error + ('a, 'z) YTDataContainerDataset_scheme" where
  "YTDataContainerDataset_parse_parameter_file h5py_File st_ctime self =
     bind (h5py_File (parameter_filename self)) (\<lambda>f.
       let hvals = attrs f;
           self = self\<lparr>particle_types_raw := h5keys f\<rparr>;
           self = self\<lparr>particle_types := particle_types_raw self\<rparr>;
           self = self\<lparr>dimensionality := 3\<rparr>;
           self = self\<lparr>refine_by := 2\<rparr>
       in bind (st_ctime (parameter_filename self)) (\<lambda>ctime.
       let self = self\<lparr>unique_identifier := PyInt ctime\<rparr>;
           self = self\<lparr>filename_template := parameter_filename self\<rparr>;
           self = self\<lparr>file_count := 1\<rparr>
       in bind (copy_attrs hvals required_attrs self) (\<lambda>self.
       let self = self\<lparr>periodicity := (True, True, True)\<rparr>
       in bind (lshift1 (over_refine_factor self)) (\<lambda>nz.
       let self = self\<lparr>domain_dimensions := [nz, nz, nz]\<rparr>
       in Inr (self\<lparr>parameters := parameters self ++ hvals\<rparr>)))))"

section \<open>The Exodus II frontend\<close>

text \<open>
  The collaborators of \<^verbatim>\<open>ExodusIIDataset\<close> that are not in these two files:
  \<^item> \<open>NetCDF4FileHandler\<close>: \<^verbatim>\<open>NetCDF4FileHandler(filename).dataset.variables\<close>, the
    variables of the file by name, or the exception of opening it;
  \<^item> \<open>load_info_records\<close>: the decoder of \<^verbatim>\<open>.util\<close>, which may raise;
  \<^item> \<open>sanitize_tostring\<close>: \<^verbatim>\<open>sanitize_string(v.tostring())\<close> for an array \<open>v\<close>;
  \<^item> \<open>f8\<close>, \<open>i8\<close>: numpy's casts of one cell to 64-bit float and to 64-bit integer;
  \<^item> \<open>int_of\<close>: the integer held by a cell;
  \<^item> \<open>str_hash\<close>: \<^verbatim>\<open>str.__hash__\<close>.
\<close>

record 'a exodus_env =
  NetCDF4FileHandler :: "string \<Rightarrow> py_error + (string \<rightharpoonup> 'a ndarray)"
  load_info_records :: "'a pyval \<Rightarrow> py_error + 'a pyval"
  sanitize_tostring :: "'a ndarray \<Rightarrow> string"
  f8 :: "'a \<Rightarrow> 'a"
  i8 :: "'a \<Rightarrow> 'a"
  int_of :: "'a \<Rightarrow> int"
  str_hash :: "string \<Rightarrow> int"

record 'a ExodusIIDataset = "'a Dataset" +
  data :: "(string \<times> 'a pyval \<rightharpoonup> 'a ndarray) list"
  num_steps :: nat

text \<open>\<^verbatim>\<open>try: return body  except (KeyError, TypeError): return fallback\<close>. Any other
  exception of the body leaves the function. The warning that some of the handlers log has
  no effect on the dataset.\<close>

definition except_key_or_type :: "py_error + 'v \<Rightarrow> 'v \<Rightarrow> py_error + 'v" where
  "except_key_or_type body fallback =
     (case body of
        Inl e \<Rightarrow> if key_or_type_error e then Inr fallback else Inl e
      | Inr v \<Rightarrow> Inr v)"

text \<open>\<^verbatim>\<open>_load_variables\<close> (lines 138-145): every variable of the file becomes a
  parameter.\<close>

definition ExodusIIDataset_load_variables ::
  "'a exodus_env \<Rightarrow> ('a, 'z) ExodusIIDataset_scheme
     \<Rightarrow> py_error + ('a, 'z) ExodusIIDataset_scheme" where
  "ExodusIIDataset_load_variables env self =
     bind (NetCDF4FileHandler env (parameter_filename self)) (\<lambda>variables.
       Inr (self\<lparr>parameters :=
              parameters self ++ (\<lambda>key. map_option NDArray (variables key))\<rparr>))"

text \<open>\<^verbatim>\<open>sanitize_string(v.tostring())\<close>: only an array has \<^verbatim>\<open>tostring\<close>.\<close>

definition tostring_sanitized :: "'a exodus_env \<Rightarrow> 'a pyval \<Rightarrow> py_error + string" where
  "tostring_sanitized env v =
     (case v of NDArray a \<Rightarrow> Inr (sanitize_tostring env a) | _ \<Rightarrow> Inl AttributeError)"

text \<open>The list comprehension of lines 186-187, 197-198 and 208-209.\<close>

definition decoded_names ::
  "'a exodus_env \<Rightarrow> (string \<rightharpoonup> 'a pyval) \<Rightarrow> string \<Rightarrow> py_error + string list" where
  "decoded_names env params key =
     bind (dict_getitem params key) (\<lambda>x.
     bind (iterate x) (\<lambda>vs. mapM (tostring_sanitized env) vs))"

text \<open>\<^verbatim>\<open>_get_glo_names\<close>, \<^verbatim>\<open>_get_elem_names\<close>, \<^verbatim>\<open>_get_nod_names\<close> (lines 181-212).\<close>

definition ExodusIIDataset_get_glo_names ::
  "'a exodus_env \<Rightarrow> ('a, 'z) ExodusIIDataset_scheme \<Rightarrow> py_error + string list" where
  "ExodusIIDataset_get_glo_names env self =
     except_key_or_type (decoded_names env (parameters self) ''name_glo_var'') []"

definition ExodusIIDataset_get_elem_names ::
  "'a exodus_env \<Rightarrow> ('a, 'z) ExodusIIDataset_scheme \<Rightarrow> py_error + string list" where
  "ExodusIIDataset_get_elem_names env self =
     except_key_or_type (decoded_names env (parameters self) ''name_elem_var'') []"

definition ExodusIIDataset_get_nod_names ::
  "'a exodus_env \<Rightarrow> ('a, 'z) ExodusIIDataset_scheme \<Rightarrow> py_error + string list" where
  "ExodusIIDataset_get_nod_names env self =
     except_key_or_type (decoded_names env (parameters self) ''name_nod_var'') []"

text \<open>The loop of lines 156-157: \<^verbatim>\<open>self.parameters[name] = value\<close> for each pair.\<close>

fun set_parameters ::
  "(string \<times> 'a pyval) list \<Rightarrow> (string \<rightharpoonup> 'a pyval) \<Rightarrow> (string \<rightharpoonup> 'a pyval)" where
  "set_parameters [] params = params"
| "set_parameters ((name, v) # rest) params = set_parameters rest (params(name \<mapsto> v))"

text \<open>\<^verbatim>\<open>_read_glo_var\<close> (lines 147-157).\<close>

definition ExodusIIDataset_read_glo_var ::
  "'a exodus_env \<Rightarrow> ('a, 'z) ExodusIIDataset_scheme
     \<Rightarrow> py_error + ('a, 'z) ExodusIIDataset_scheme" where
  "ExodusIIDataset_read_glo_var env self =
     bind (ExodusIIDataset_get_glo_names env self) (\<lambda>names.
       if names = [] then Inr self
       else
         bind (dict_getitem (parameters self) ''vals_glo_var'') (\<lambda>x.
         bind (slice_all x) (\<lambda>a.
         bind (ndarray_iter (transpose_nd a)) (\<lambda>values.
           Inr (self\<lparr>parameters :=
                  set_parameters (zip names (map NDArray values)) (parameters self)\<rparr>)))))"

text \<open>\<^verbatim>\<open>_load_info_records\<close> (lines 159-167).\<close>

definition ExodusIIDataset_load_info_records ::
  "'a exodus_env \<Rightarrow> ('a, 'z) ExodusIIDataset_scheme \<Rightarrow> py_error + 'a pyval" where
  "ExodusIIDataset_load_info_records env self =
     except_key_or_type
       (bind (dict_getitem (parameters self) ''info_records'') (load_info_records env))
       (PyList [])"

text \<open>\<^verbatim>\<open>_get_unique_identifier\<close> (lines 169-173).\<close>

definition ExodusIIDataset_get_unique_identifier ::
  "'a exodus_env \<Rightarrow> ('a, 'z) ExodusIIDataset_scheme \<Rightarrow> py_error + 'a pyval" where
  "ExodusIIDataset_get_unique_identifier env self =
     except_key_or_type
       (bind (dict_getitem (parameters self) ''info_records'') (\<lambda>records.
        bind (subscript_str records ''Version Info'') (\<lambda>info.
          subscript_str info ''Executable Timestamp'')))
       (PyInt (str_hash env (parameter_filename self)))"

text \<open>\<^verbatim>\<open>_get_current_time\<close> (lines 175-179).\<close>

definition ExodusIIDataset_get_current_time ::
  "('a, 'z) ExodusIIDataset_scheme \<Rightarrow> py_error + 'a pyval" where
  "ExodusIIDataset_get_current_time self =
     except_key_or_type
       (bind (dict_getitem (parameters self) ''time_whole'') (\<lambda>t. subscript_int t 0))
       (PyFloat 0)"

text \<open>
  \<^verbatim>\<open>_load_coordinates\<close> (lines 214-230). \<open>coord_axes\<close> is bound only when the
  dimensionality is 3 or 2; reading it unbound raises \<^verbatim>\<open>UnboundLocalError\<close>, and it is
  read only when there is no \<^verbatim>\<open>coord\<close> parameter. \<^verbatim>\<open>copy()\<close> changes nothing here.
\<close>

definition ExodusIIDataset_load_coordinates ::
  "('a, 'z) ExodusIIDataset_scheme \<Rightarrow> py_error + 'a ndarray" where
  "ExodusIIDataset_load_coordinates self =
     (let coord_axes =
            (if dimensionality self = 3 then Some ''xyz''
             else if dimensionality self = 2 then Some ''xy''
             else None)
      in if parameters self ''coord'' \<noteq> None then
           bind (dict_getitem (parameters self) ''coord'') (\<lambda>x.
           bind (slice_all x) (\<lambda>a.
           bind (ndarray_iter a) (\<lambda>rows.
           bind (np_array rows) (\<lambda>c. Inr (transpose_nd c)))))
         else
           (case coord_axes of
              None \<Rightarrow> Inl UnboundLocalError
            | Some axes \<Rightarrow>
                bind (mapM (\<lambda>ax. bind (dict_getitem (parameters self) (''coord'' @ [ax]))
                                   slice_all) axes) (\<lambda>cols.
                bind (np_array cols) (\<lambda>c. Inr (transpose_nd c)))))"

text \<open>\<^verbatim>\<open>_load_connectivity\<close> (lines 232-240).\<close>

definition ExodusIIDataset_load_connectivity ::
  "'a exodus_env \<Rightarrow> ('a, 'z) ExodusIIDataset_scheme \<Rightarrow> py_error + 'a ndarray list" where
  "ExodusIIDataset_load_connectivity env self =
     bind (dict_getitem (parameters self) ''num_meshes'') (\<lambda>n.
     bind (py_range n) (\<lambda>meshes.
       mapM (\<lambda>i. bind (dict_getitem (parameters self) (''connect'' @ str_of_nat (i + 1))) (\<lambda>x.
                  bind (slice_all x) (\<lambda>a. Inr (astype (i8 env) a)))) meshes))"

text \<open>
  The loop of lines 251-252 for the mesh \<open>i\<close>, over \<^verbatim>\<open>enumerate(elem_names)\<close>. The key
  \<^verbatim>\<open>('gas', elem_name)\<close> must be hashable.
\<close>

fun elem_loop ::
  "'a exodus_env \<Rightarrow> (string \<rightharpoonup> 'a pyval) \<Rightarrow> nat \<Rightarrow> (nat \<times> 'a pyval) list
     \<Rightarrow> (string \<times> 'a pyval \<rightharpoonup> 'a ndarray) \<Rightarrow> py_error + (string \<times> 'a pyval \<rightharpoonup> 'a ndarray)" where
  "elem_loop env params i [] vals = Inr vals"
| "elem_loop env params i ((j, elem_name) # rest) vals =
     bind (dict_getitem params
             (''vals_elem_var'' @ str_of_nat (j + 1) @ ''eb'' @ str_of_nat (i + 1))) (\<lambda>x.
     bind (slice_all x) (\<lambda>a.
     bind (last_step (astype (f8 env) a)) (\<lambda>v.
       if hashable elem_name
       then elem_loop env params i rest (vals((''gas'', elem_name) \<mapsto> v))
       else Inl TypeError)))"

text \<open>\<^verbatim>\<open>ci - 1\<close> for a connectivity block: its shape and its entries less one. The blocks
  are arrays; for any other value the subtraction is reported as \<^verbatim>\<open>TypeError\<close>.\<close>

definition minus_one :: "'a exodus_env \<Rightarrow> 'a pyval \<Rightarrow> py_error + nat list \<times> int list" where
  "minus_one env ci =
     (case ci of
        NDArray c \<Rightarrow> Inr (shape c, map (\<lambda>x. int_of env x - 1) (cells c))
      | _ \<Rightarrow> Inl TypeError)"

text \<open>The loop of lines 254-257, over \<^verbatim>\<open>enumerate(nod_names)\<close>.\<close>

fun nod_loop ::
  "'a exodus_env \<Rightarrow> (string \<rightharpoonup> 'a pyval) \<Rightarrow> 'a pyval \<Rightarrow> (nat \<times> 'a pyval) list
     \<Rightarrow> (string \<times> 'a pyval \<rightharpoonup> 'a ndarray) \<Rightarrow> py_error + (string \<times> 'a pyval \<rightharpoonup> 'a ndarray)" where
  "nod_loop env params ci [] vals = Inr vals"
| "nod_loop env params ci ((j, nod_name) # rest) vals =
     bind (dict_getitem params (''vals_nod_var'' @ str_of_nat (j + 1))) (\<lambda>x.
     bind (slice_all x) (\<lambda>a.
     bind (minus_one env ci) (\<lambda>(idx_shape, idx).
     bind (last_step_take (astype (f8 env) a) idx_shape idx) (\<lambda>v.
       if hashable nod_name
       then nod_loop env params ci rest (vals((''gas'', nod_name) \<mapsto> v))
       else Inl TypeError))))"

text \<open>The body of the loop of lines 247-259 for the mesh \<open>i\<close>.\<close>

definition load_mesh_data ::
  "'a exodus_env \<Rightarrow> (string \<rightharpoonup> 'a pyval) \<Rightarrow> nat
     \<Rightarrow> py_error + (string \<times> 'a pyval \<rightharpoonup> 'a ndarray)" where
  "load_mesh_data env params i =
     bind (dict_getitem params ''connectivity'') (\<lambda>conn.
     bind (subscript_int conn (int i)) (\<lambda>ci.
     bind (dict_getitem params ''elem_names'') (\<lambda>en.
     bind (iterate en) (\<lambda>elem_names.
     bind (elem_loop env params i (enumerate 0 elem_names) Map.empty) (\<lambda>vals.
     bind (dict_getitem params ''nod_names'') (\<lambda>nn.
     bind (iterate nn) (\<lambda>nod_names.
       nod_loop env params ci (enumerate 0 nod_names) vals)))))))"

text \<open>\<^verbatim>\<open>_load_data\<close> (lines 242-261).\<close>

definition ExodusIIDataset_load_data ::
  "'a exodus_env \<Rightarrow> ('a, 'z) ExodusIIDataset_scheme
     \<Rightarrow> py_error + (string \<times> 'a pyval \<rightharpoonup> 'a ndarray) list" where
  "ExodusIIDataset_load_data env self =
     bind (dict_getitem (parameters self) ''num_meshes'') (\<lambda>n.
     bind (py_range n) (\<lambda>meshes.
       mapM (load_mesh_data env (parameters self)) meshes))"

text \<open>\<^verbatim>\<open>x.min(axis=0)\<close> and \<^verbatim>\<open>x.max(axis=0)\<close>: methods of arrays only.\<close>

definition min_axis0 :: "('a::linorder) pyval \<Rightarrow> py_error + 'a pyval" where
  "min_axis0 x =
     (case x of
        NDArray a \<Rightarrow> bind (reduce_axis0 min a) (\<lambda>r. Inr (NDArray r))
      | _ \<Rightarrow> Inl AttributeError)"

definition max_axis0 :: "('a::linorder) pyval \<Rightarrow> py_error + 'a pyval" where
  "max_axis0 x =
     (case x of
        NDArray a \<Rightarrow> bind (reduce_axis0 max a) (\<lambda>r. Inr (NDArray r))
      | _ \<Rightarrow> Inl AttributeError)"

text \<open>\<^verbatim>\<open>_load_domain_edge\<close> (lines 263-273): for an index other than 0 and 1 the
  function ends without \<^verbatim>\<open>return\<close>.\<close>

definition ExodusIIDataset_load_domain_edge ::
  "('a::linorder, 'z) ExodusIIDataset_scheme \<Rightarrow> int \<Rightarrow> py_error + 'a pyval" where
  "ExodusIIDataset_load_domain_edge self domain_idx =
     (if domain_idx = 0 then bind (dict_getitem (parameters self) ''coordinates'') min_axis0
      else if domain_idx = 1 then bind (dict_getitem (parameters self) ''coordinates'') max_axis0
      else Inr PyNone)"

text \<open>\<^verbatim>\<open>self.parameters[key] = value\<close>.\<close>

definition set_parameter ::
  "string \<Rightarrow> 'a pyval \<Rightarrow> ('a, 'z) ExodusIIDataset_scheme \<Rightarrow> ('a, 'z) ExodusIIDataset_scheme" where
  "set_parameter key v self = self\<lparr>parameters := (parameters self)(key \<mapsto> v)\<rparr>"

text \<open>Lines 101-114 of \<^verbatim>\<open>_parse_parameter_file\<close>: everything read from the file.\<close>

definition parse_lines_101_114 ::
  "('a::linorder) exodus_env \<Rightarrow> ('a, 'z) ExodusIIDataset_scheme
     \<Rightarrow> py_error + ('a, 'z) ExodusIIDataset_scheme" where
  "parse_lines_101_114 env self =
     bind (ExodusIIDataset_load_variables env self) (\<lambda>self.
     bind (ExodusIIDataset_read_glo_var env self) (\<lambda>self.
     bind (bind (dict_getitem (parameters self) ''coor_names'') shape0) (\<lambda>d.
     let self = self\<lparr>dimensionality := int d\<rparr> in
     bind (ExodusIIDataset_load_info_records env self) (\<lambda>records.
     let self = set_parameter ''info_records'' records self in
     bind (ExodusIIDataset_get_unique_identifier env self) (\<lambda>uid.
     let self = self\<lparr>unique_identifier := uid\<rparr> in
     bind (ExodusIIDataset_get_current_time self) (\<lambda>t.
     let self = self\<lparr>current_time := t\<rparr> in
     bind (bind (dict_getitem (parameters self) ''eb_status'') shape0) (\<lambda>n.
     let self = set_parameter ''num_meshes'' (PyInt (int n)) self in
     bind (ExodusIIDataset_get_elem_names env self) (\<lambda>names.
     let self = set_parameter ''elem_names'' (PyList (map PyStr names)) self in
     bind (ExodusIIDataset_get_nod_names env self) (\<lambda>names.
     let self = set_parameter ''nod_names'' (PyList (map PyStr names)) self in
     bind (ExodusIIDataset_load_coordinates self) (\<lambda>coords.
     let self = set_parameter ''coordinates'' (NDArray coords) self in
     bind (ExodusIIDataset_load_connectivity env self) (\<lambda>conn.
     let self = set_parameter ''connectivity'' (PyList (map NDArray conn)) self in
     bind (ExodusIIDataset_load_data env self) (\<lambda>d.
     let self = self\<lparr>data := d\<rparr> in
     bind (ExodusIIDataset_load_domain_edge self 0) (\<lambda>left.
     let self = self\<lparr>domain_left_edge := left\<rparr> in
     bind (ExodusIIDataset_load_domain_edge self 1) (\<lambda>right.
       Inr (self\<lparr>domain_right_edge := right\<rparr>)))))))))))))))"

text \<open>Lines 115-122: the constants.\<close>

definition parse_lines_115_122 ::
  "('a, 'z) ExodusIIDataset_scheme \<Rightarrow> ('a, 'z) ExodusIIDataset_scheme" where
  "parse_lines_115_122 self =
     self\<lparr>periodicity := (False, False, False),
          domain_dimensions := [1, 1, 1],
          cosmological_simulation := PyInt 0,
          current_redshift := PyInt 0,
          omega_lambda := PyInt 0,
          omega_matter := PyInt 0,
          hubble_constant := PyInt 0,
          refine_by := 0\<rparr>"

text \<open>\<^verbatim>\<open>_parse_parameter_file\<close> (lines 100-123); line 123 is the last step.\<close>

definition ExodusIIDataset_parse_parameter_file ::
  "('a::linorder) exodus_env \<Rightarrow> ('a, 'z) ExodusIIDataset_scheme
     \<Rightarrow> py_error + ('a, 'z) ExodusIIDataset_scheme" where
  "ExodusIIDataset_parse_parameter_file env self =
     bind (parse_lines_101_114 env self) (\<lambda>self.
     let self = parse_lines_115_122 self in
     bind (bind (dict_getitem (parameters self) ''time_whole'') py_len) (\<lambda>n.
       Inr (self\<lparr>num_steps := n\<rparr>)))"

text \<open>
  \<^verbatim>\<open>ExodusIIDataset._is_valid\<close> (lines 275-283), with \<^verbatim>\<open>args[0]\<close> as \<open>filename\<close>. The
  bare \<^verbatim>\<open>except\<close> catches every exception; the method then ends without
  \<^verbatim>\<open>return\<close>, so its value is \<^verbatim>\<open>None\<close>.
\<close>

definition ExodusIIDataset_is_valid :: "'a exodus_env \<Rightarrow> string \<Rightarrow> py_error + 'a pyval" where
  "ExodusIIDataset_is_valid env filename =
     (case bind (NetCDF4FileHandler env filename) (\<lambda>variables.
           bind (dict_getitem variables ''connect1'') (\<lambda>v. Inr (PyBool True))) of
        Inl e \<Rightarrow> Inr PyNone
      | Inr r \<Rightarrow> Inr r)"

section \<open>Example inputs\<close>

text \<open>A file system with no HDF5 file at all: every \<^verbatim>\<open>h5py.File\<close> raises.\<close>

definition h5_absent :: "string \<Rightarrow> py_error + 'a h5file" where
  "h5_absent path = Inl IOError"

text \<open>The attributes of a saved data container, and a file system that holds it as
  \<^verbatim>\<open>sphere.h5\<close> and, with one attribute deleted, as \<^verbatim>\<open>partial.h5\<close>.\<close>

definition example_attrs :: "string \<rightharpoonup> int pyval" where
  "example_attrs =
     [''data_type'' \<mapsto> PyStr ''yt_data_container'',
      ''cosmological_simulation'' \<mapsto> PyInt 1,
      ''current_time'' \<mapsto> PyFloat 2,
      ''current_redshift'' \<mapsto> PyFloat 0,
      ''hubble_constant'' \<mapsto> PyFloat 0.7,
      ''omega_matter'' \<mapsto> PyFloat 0.3,
      ''omega_lambda'' \<mapsto> PyFloat 0.7,
      ''domain_left_edge'' \<mapsto> NDArray (Ndarray [3] [0, 0, 0]),
      ''domain_right_edge'' \<mapsto> NDArray (Ndarray [3] [1, 1, 1])]"

definition example_h5 :: "string \<Rightarrow> py_error + int h5file" where
  "example_h5 path =
     (if path = ''sphere.h5'' then Inr \<lparr>attrs = example_attrs, h5keys = [''grid'']\<rparr>
      else if path = ''partial.h5''
      then Inr \<lparr>attrs = example_attrs(''omega_lambda'' := None), h5keys = [''grid'']\<rparr>
      else Inl IOError)"

text \<open>
  Files whose attribute \<^verbatim>\<open>data_type\<close> is not one string: \<^verbatim>\<open>rays.h5\<close> holds an array
  of two tags, \<^verbatim>\<open>ray.h5\<close> an array of one tag, \<^verbatim>\<open>bare.h5\<close> no such attribute. The
  cells of these arrays are strings, and numpy compares a cell with a string by its
  characters.
\<close>

definition tagged_h5 :: "string \<Rightarrow> py_error + string h5file" where
  "tagged_h5 path =
     (if path = ''rays.h5''
      then Inr \<lparr>attrs = [''data_type'' \<mapsto> NDArray (Ndarray [2] [''light_ray'', ''light_ray''])],
                h5keys = []\<rparr>
      else if path = ''ray.h5''
      then Inr \<lparr>attrs = [''data_type'' \<mapsto> NDArray (Ndarray [1] [''light_ray''])],
                h5keys = []\<rparr>
      else if path = ''bare.h5'' then Inr \<lparr>attrs = Map.empty, h5keys = []\<rparr>
      else Inl IOError)"

definition str_equal :: "string \<Rightarrow> string \<Rightarrow> bool" where
  "str_equal c s = (c = s)"

text \<open>The cells of the arrays of \<^verbatim>\<open>sphere.h5\<close> are numbers: none equals a string.\<close>

definition number_equal :: "int \<Rightarrow> string \<Rightarrow> bool" where
  "number_equal c s = False"

definition example_ctime :: "string \<Rightarrow> py_error + int" where
  "example_ctime path =
     (if path = ''sphere.h5'' \<or> path = ''partial.h5'' then Inr 1446595200 else Inl OSError)"

text \<open>The dataset object as \<^verbatim>\<open>__init__\<close> hands it to the parser.\<close>

definition example_container :: "int YTDataContainerDataset" where
  "example_container =
     \<lparr>parameter_filename = ''sphere.h5'', parameters = Map.empty, dimensionality = 0,
      refine_by = 0, unique_identifier = PyNone, cosmological_simulation = PyNone,
      current_time = PyNone, current_redshift = PyNone, hubble_constant = PyNone,
      omega_matter = PyNone, omega_lambda = PyNone, domain_left_edge = PyNone,
      domain_right_edge = PyNone, periodicity = (False, False, False),
      domain_dimensions = [], n_ref = 16, over_refine_factor = 1, particle_types_raw = [],
      particle_types = [], filename_template = [], file_count = 0\<rparr>"

text \<open>
  An Exodus II collaborator set whose cells are integers: the casts change nothing, and
  a row of character codes is decoded up to its first padding byte.
\<close>

definition example_char :: "int \<Rightarrow> char" where
  "example_char c =
     (case map_of
        [(101, CHR ''e''), (103, CHR ''g''), (104, CHR ''h''), (105, CHR ''i''),
         (108, CHR ''l''), (109, CHR ''m''), (111, CHR ''o''), (112, CHR ''p''),
         (116, CHR ''t''), (117, CHR ''u''), (119, CHR ''w''), (120, CHR ''x''),
         (121, CHR ''y''), (122, CHR ''z''), (95, CHR ''_'')] c of
        Some ch \<Rightarrow> ch
      | None \<Rightarrow> CHR ''?'')"

definition example_sanitize :: "int ndarray \<Rightarrow> string" where
  "example_sanitize a = map example_char (takeWhile (\<lambda>c. 32 \<le> c \<and> c < 127) (cells a))"

text \<open>
  \<^verbatim>\<open>mesh.e\<close>: one quadrilateral on four nodes in the plane, two time steps, one element
  variable \<^verbatim>\<open>p\<close>, one node variable \<^verbatim>\<open>u\<close> and one global variable \<^verbatim>\<open>g\<close>.
\<close>

definition mesh_variables :: "(string \<times> int ndarray) list" where
  "mesh_variables =
     [(''coor_names'', Ndarray [2, 2] [120, 0, 121, 0]),
      (''coordx'', Ndarray [4] [0, 3, 3, 0]),
      (''coordy'', Ndarray [4] [0, 0, 2, 2]),
      (''eb_status'', Ndarray [1] [1]),
      (''connect1'', Ndarray [1, 4] [1, 2, 3, 4]),
      (''name_elem_var'', Ndarray [1, 2] [112, 0]),
      (''vals_elem_var1eb1'', Ndarray [2, 1] [7, 8]),
      (''name_nod_var'', Ndarray [1, 2] [117, 0]),
      (''vals_nod_var1'', Ndarray [2, 4] [0, 0, 0, 0, 10, 20, 30, 40]),
      (''name_glo_var'', Ndarray [1, 2] [103, 0]),
      (''vals_glo_var'', Ndarray [2, 1] [5, 6]),
      (''time_whole'', Ndarray [2] [0, 1])]"

text \<open>
  \<^verbatim>\<open>static.e\<close>: the mesh alone, written before any time step: \<^verbatim>\<open>time_whole\<close> is there
  and has length 0.
\<close>

definition static_variables :: "(string \<times> int ndarray) list" where
  "static_variables =
     [(''coor_names'', Ndarray [2, 2] [120, 0, 121, 0]),
      (''coordx'', Ndarray [4] [0, 3, 3, 0]),
      (''coordy'', Ndarray [4] [0, 0, 2, 2]),
      (''eb_status'', Ndarray [1] [1]),
      (''connect1'', Ndarray [1, 4] [1, 2, 3, 4]),
      (''time_whole'', Ndarray [0] [])]"

text \<open>
  \<^verbatim>\<open>line.e\<close>: a mesh on a line, with the combined variable \<^verbatim>\<open>coord\<close> of one row for
  its three nodes.
\<close>

definition line_variables :: "(string \<times> int ndarray) list" where
  "line_variables =
     [(''coor_names'', Ndarray [1, 2] [120, 0]),
      (''coord'', Ndarray [1, 3] [0, 5, 9]),
      (''eb_status'', Ndarray [1] [1]),
      (''connect1'', Ndarray [2, 2] [1, 2, 2, 3]),
      (''time_whole'', Ndarray [1] [0])]"

text \<open>
  \<^verbatim>\<open>renamed.e\<close>: no variable \<^verbatim>\<open>time_whole\<close>, and one global variable whose name is
  \<^verbatim>\<open>time_whole\<close>.
\<close>

definition renamed_variables :: "(string \<times> int ndarray) list" where
  "renamed_variables =
     [(''coor_names'', Ndarray [2, 2] [120, 0, 121, 0]),
      (''coordx'', Ndarray [4] [0, 3, 3, 0]),
      (''coordy'', Ndarray [4] [0, 0, 2, 2]),
      (''eb_status'', Ndarray [1] [1]),
      (''connect1'', Ndarray [1, 4] [1, 2, 3, 4]),
      (''name_glo_var'',
         Ndarray [1, 11] [116, 105, 109, 101, 95, 119, 104, 111, 108, 101, 0]),
      (''vals_glo_var'', Ndarray [2, 1] [5, 6])]"

text \<open>\<^verbatim>\<open>untimed.e\<close>: \<^verbatim>\<open>mesh.e\<close> without \<^verbatim>\<open>time_whole\<close>.\<close>

definition untimed_variables :: "(string \<times> int ndarray) list" where
  "untimed_variables = filter (\<lambda>(key, v). key \<noteq> ''time_whole'') mesh_variables"

text \<open>
  \<^verbatim>\<open>solid.e\<close>: one tetrahedron in space, with the separate variables \<^verbatim>\<open>coordx\<close>,
  \<^verbatim>\<open>coordy\<close> and \<^verbatim>\<open>coordz\<close>.
\<close>

definition solid_variables :: "(string \<times> int ndarray) list" where
  "solid_variables =
     [(''coor_names'', Ndarray [3, 2] [120, 0, 121, 0, 122, 0]),
      (''coordx'', Ndarray [4] [0, 6, 0, 0]),
      (''coordy'', Ndarray [4] [0, 0, 7, 0]),
      (''coordz'', Ndarray [4] [0, 0, 0, 8]),
      (''eb_status'', Ndarray [1] [1]),
      (''connect1'', Ndarray [1, 4] [1, 2, 3, 4]),
      (''time_whole'', Ndarray [1] [0])]"

text \<open>
  \<^verbatim>\<open>zero.e\<close>: the quadrilateral of \<^verbatim>\<open>mesh.e\<close> with its node variable, and with the
  entry 0 at the first position of its connectivity.
\<close>

definition zero_variables :: "(string \<times> int ndarray) list" where
  "zero_variables =
     [(''coor_names'', Ndarray [2, 2] [120, 0, 121, 0]),
      (''coordx'', Ndarray [4] [0, 3, 3, 0]),
      (''coordy'', Ndarray [4] [0, 0, 2, 2]),
      (''eb_status'', Ndarray [1] [1]),
      (''connect1'', Ndarray [1, 4] [0, 2, 3, 4]),
      (''name_nod_var'', Ndarray [1, 2] [117, 0]),
      (''vals_nod_var1'', Ndarray [2, 4] [0, 0, 0, 0, 10, 20, 30, 40]),
      (''time_whole'', Ndarray [2] [0, 1])]"

text \<open>\<^verbatim>\<open>notes.e\<close>: a netCDF file that is not a mesh.\<close>

definition example_netcdf :: "string \<Rightarrow> py_error + (string \<rightharpoonup> int ndarray)" where
  "example_netcdf path =
     (if path = ''mesh.e'' then Inr (map_of mesh_variables)
      else if path = ''static.e'' then Inr (map_of static_variables)
      else if path = ''line.e'' then Inr (map_of line_variables)
      else if path = ''renamed.e'' then Inr (map_of renamed_variables)
      else if path = ''untimed.e'' then Inr (map_of untimed_variables)
      else if path = ''solid.e'' then Inr (map_of solid_variables)
      else if path = ''zero.e'' then Inr (map_of zero_variables)
      else if path = ''notes.e'' then Inr (map_of [(''temperature'', Ndarray [1] [20])])
      else Inl IOError)"

definition example_env :: "int exodus_env" where
  "example_env =
     \<lparr>NetCDF4FileHandler = example_netcdf,
      load_info_records = (\<lambda>x. Inr (PyDict [])),
      sanitize_tostring = example_sanitize,
      f8 = (\<lambda>c. c),
      i8 = (\<lambda>c. c),
      int_of = (\<lambda>c. c),
      str_hash = (\<lambda>s. int (length s))\<rparr>"

text \<open>The dataset object for a path, as \<^verbatim>\<open>__init__\<close> hands it to the parser.\<close>

definition example_dataset :: "string \<Rightarrow> int ExodusIIDataset" where
  "example_dataset path =
     \<lparr>parameter_filename = path, parameters = Map.empty, dimensionality = 0,
      refine_by = 0, unique_identifier = PyNone, cosmological_simulation = PyNone,
      current_time = PyNone, current_redshift = PyNone, hubble_constant = PyNone,
      omega_matter = PyNone, omega_lambda = PyNone, domain_left_edge = PyNone,
      domain_right_edge = PyNone, periodicity = (False, False, False),
      domain_dimensions = [], data = [], num_steps = 0\<rparr>"

text \<open>
  Reading a parsed dataset: \<^verbatim>\<open>ds.parameters.get(key)\<close>, and
  \<^verbatim>\<open>[vals.get(('gas', name)) for vals in ds.data]\<close>, the field of one name in every
  mesh.
\<close>

definition parameter :: "string \<Rightarrow> ('a, 'z) ExodusIIDataset_scheme \<Rightarrow> 'a pyval option" where
  "parameter key ds = parameters ds key"

definition gas_field :: "string \<Rightarrow> ('a, 'z) ExodusIIDataset_scheme \<Rightarrow> 'a ndarray option list" where
  "gas_field name ds = map (\<lambda>vals. vals (''gas'', PyStr name)) (data ds)"

text \<open>The datasets of \<^verbatim>\<open>mesh.e\<close> and \<^verbatim>\<open>static.e\<close> after \<^verbatim>\<open>_load_variables\<close>.\<close>

definition mesh_loaded :: "int ExodusIIDataset" where
  "mesh_loaded =
     (example_dataset ''mesh.e'')\<lparr>parameters :=
        (\<lambda>key. map_option NDArray (map_of mesh_variables key))\<rparr>"

definition static_loaded :: "int ExodusIIDataset" where
  "static_loaded =
     (example_dataset ''static.e'')\<lparr>parameters :=
        (\<lambda>key. map_option NDArray (map_of static_variables key))\<rparr>"

text \<open>A dataset whose info records carry the time stamp of the executable, one with no
  parameter at all, and one whose info records are a bare array and whose \<^verbatim>\<open>time_whole\<close>
  is empty.\<close>

definition stamped_dataset :: "int ExodusIIDataset" where
  "stamped_dataset =
     (example_dataset ''mesh.e'')\<lparr>parameters :=
        [''info_records'' \<mapsto>
           PyDict [(''Version Info'', PyDict [(''Executable Timestamp'', PyStr ''Nov 3'')])],
         ''time_whole'' \<mapsto> NDArray (Ndarray [2] [4, 5])]\<rparr>"

definition odd_dataset :: "int ExodusIIDataset" where
  "odd_dataset =
     (example_dataset ''mesh.e'')\<lparr>parameters :=
        [''info_records'' \<mapsto> NDArray (Ndarray [1] [7]),
         ''time_whole'' \<mapsto> NDArray (Ndarray [0] [])]\<rparr>"

section \<open>Basic facts\<close>

lemma bind_Inl [simp]: "bind (Inl e) f = Inl e"
  by (simp add: bind_def)

lemma bind_Inr [simp]: "bind (Inr v) f = f v"
  by (simp add: bind_def)

lemma bind_eq_Inr: "bind m f = Inr r \<longleftrightarrow> (\<exists>v. m = Inr v \<and> f v = Inr r)"
  by (cases m) simp_all

lemma bind_eq_Inl: "bind m f = Inl e \<longleftrightarrow> m = Inl e \<or> (\<exists>v. m = Inr v \<and> f v = Inl e)"
  by (cases m) simp_all

lemma dict_getitem_eq_Inr [simp]: "dict_getitem d key = Inr v \<longleftrightarrow> d key = Some v"
  by (simp add: dict_getitem_def split: option.splits)

lemma dict_getitem_eq_Inl [simp]: "dict_getitem d key = Inl e \<longleftrightarrow> d key = None \<and> e = KeyError"
  by (auto simp: dict_getitem_def split: option.splits)

lemma mapM_eq_Inr:
  "mapM f xs = Inr ys \<longleftrightarrow> length ys = length xs \<and> (\<forall>i < length xs. f (xs ! i) = Inr (ys ! i))"
proof (induction xs arbitrary: ys)
  case Nil
  then show ?case by auto
next
  case (Cons x xs)
  show ?case
  proof (cases ys)
    case Nil
    then show ?thesis by (auto simp: bind_eq_Inr)
  next
    case (Cons y ys')
    then show ?thesis
      using Cons.IH [of ys'] by (auto simp: bind_eq_Inr less_Suc_eq_0_disj)
  qed
qed

section \<open>Facts about keys and arrays\<close>

text \<open>A formatted number consists of digits, so a key built from one is none of the fixed
  keys of the parser.\<close>

lemma str_of_nat_digits: "set (str_of_nat n) \<subseteq> set ''0123456789''"
proof (induction n rule: str_of_nat.induct)
  case (1 n)
  have digit: "\<And>k. k < 10 \<Longrightarrow> ''0123456789'' ! k \<in> set ''0123456789''"
    by (rule nth_mem) simp
  show ?case
  proof (cases "n < 10")
    case True
    then show ?thesis
      using digit [of n] by (subst str_of_nat.simps) simp
  next
    case False
    have "n mod 10 < 10" by simp
    then show ?thesis
      using False "1.IH" digit [of "n mod 10"] by (subst str_of_nat.simps) simp
  qed
qed

lemma str_of_nat_not_ivity [simp]: "str_of_nat k \<noteq> ''ivity''"
  using str_of_nat_digits [of k] by auto

text \<open>The rows of a transposed matrix are the columns of the matrix.\<close>

lemma item_shape [simp]: "shape (item a i) = tl (shape a)"
  by (simp add: item_def Let_def)

lemma transpose_2d:
  "shape a = [n, m] \<Longrightarrow>
     transpose_nd a = Ndarray [m, n] (map (\<lambda>k. cells a ! ((k mod n) * m + k div n)) [0..<n * m])"
  by (simp add: transpose_nd_def)

lemma transpose_item:
  assumes "shape a = [n, m]" "j < m"
  shows "item (transpose_nd a) j = Ndarray [n] (column a j)"
proof -
  let ?f = "\<lambda>k. cells a ! ((k mod n) * m + k div n)"
  have "(j + 1) * n \<le> m * n" using assms(2) by (intro mult_le_mono1) simp
  then have le: "j * n + n \<le> n * m" by (simp add: mult.commute)
  have "take n (drop (j * n) (map ?f [0..<n * m])) = map (\<lambda>i. cells a ! (i * m + j)) [0..<n]"
  proof (rule nth_equalityI)
    show "length (take n (drop (j * n) (map ?f [0..<n * m])))
      = length (map (\<lambda>i. cells a ! (i * m + j)) [0..<n])"
      using le by simp
  next
    fix i assume "i < length (take n (drop (j * n) (map ?f [0..<n * m])))"
    then have i: "i < n" by simp
    then have lt: "j * n + i < n * m" using le by simp
    have "take n (drop (j * n) (map ?f [0..<n * m])) ! i = drop (j * n) (map ?f [0..<n * m]) ! i"
      using i by simp
    also have "\<dots> = map ?f [0..<n * m] ! (j * n + i)"
      using assms(2) by (intro nth_drop) simp
    also have "\<dots> = ?f (j * n + i)"
      using lt by simp
    also have "\<dots> = cells a ! (i * m + j)"
      using i by simp
    also have "\<dots> = map (\<lambda>i. cells a ! (i * m + j)) [0..<n] ! i"
      using i by simp
    finally show "take n (drop (j * n) (map ?f [0..<n * m])) ! i
        = map (\<lambda>i. cells a ! (i * m + j)) [0..<n] ! i" .
  qed
  then show ?thesis
    using assms by (simp add: transpose_2d item_def column_def Let_def)
qed

section \<open>The steps of the Exodus II parser\<close>

text \<open>
  When \<^verbatim>\<open>_parse_parameter_file\<close> succeeds, each of its steps has succeeded. The steps
  after a given one assign other parameters than those it read, so each step can be stated
  on the dataset the parser returns.
\<close>

lemma parse_data:
  assumes "parse_lines_101_114 env self = Inr s"
  shows "ExodusIIDataset_load_data env s = Inr (data s)"
  using assms
  apply (clarsimp simp: parse_lines_101_114_def bind_eq_Inr Let_def set_parameter_def)
  apply (simp add: ExodusIIDataset_load_data_def)
  done

lemma parse_edges:
  assumes "parse_lines_101_114 env self = Inr s"
  shows "ExodusIIDataset_load_domain_edge s 0 = Inr (domain_left_edge s)"
    "ExodusIIDataset_load_domain_edge s 1 = Inr (domain_right_edge s)"
  using assms
  by (auto simp: parse_lines_101_114_def bind_eq_Inr Let_def set_parameter_def
      ExodusIIDataset_load_domain_edge_def)

lemma parse_connectivity:
  assumes "parse_lines_101_114 env self = Inr s"
  shows "\<exists>conn. ExodusIIDataset_load_connectivity env s = Inr conn
     \<and> parameters s ''connectivity'' = Some (PyList (map NDArray conn))"
  using assms
  apply (clarsimp simp: parse_lines_101_114_def bind_eq_Inr Let_def set_parameter_def)
  apply (simp add: ExodusIIDataset_load_connectivity_def dict_getitem_def)
  done

lemma parse_coordinates:
  assumes "parse_lines_101_114 env self = Inr s"
  shows "\<exists>coords. ExodusIIDataset_load_coordinates s = Inr coords
     \<and> parameters s ''coordinates'' = Some (NDArray coords)"
  using assms
  apply (clarsimp simp: parse_lines_101_114_def bind_eq_Inr Let_def set_parameter_def)
  apply (simp add: ExodusIIDataset_load_coordinates_def dict_getitem_def split del: if_split cong: if_cong option.case_cong)
  done


lemma parse_dimensionality:
  assumes "parse_lines_101_114 env self = Inr s"
  shows "\<exists>cn d. parameters s ''coor_names'' = Some cn \<and> shape0 cn = Inr d
     \<and> dimensionality s = int d"
  using assms
  by (clarsimp simp: parse_lines_101_114_def bind_eq_Inr Let_def set_parameter_def)

lemma parse_num_meshes:
  assumes "parse_lines_101_114 env self = Inr s"
  shows "\<exists>eb n. parameters s ''eb_status'' = Some eb \<and> shape0 eb = Inr n
     \<and> parameters s ''num_meshes'' = Some (PyInt (int n))"
  using assms
  by (clarsimp simp: parse_lines_101_114_def bind_eq_Inr Let_def set_parameter_def)

lemma parse_names:
  assumes "parse_lines_101_114 env self = Inr s"
  shows "\<exists>enames nnames. parameters s ''elem_names'' = Some (PyList (map PyStr enames))
     \<and> parameters s ''nod_names'' = Some (PyList (map PyStr nnames))"
  using assms
  by (auto simp: parse_lines_101_114_def bind_eq_Inr Let_def set_parameter_def)

lemma parse_current_time:
  assumes "parse_lines_101_114 env self = Inr s"
  shows "ExodusIIDataset_get_current_time s = Inr (current_time s)"
  using assms
  apply (clarsimp simp: parse_lines_101_114_def bind_eq_Inr Let_def set_parameter_def)
  apply (simp add: ExodusIIDataset_get_current_time_def dict_getitem_def)
  done

lemma parse_parameter_file_Inr:
  assumes "ExodusIIDataset_parse_parameter_file env self = Inr s"
  obtains s' where "parse_lines_101_114 env self = Inr s'"
    "parameters s = parameters s'" "dimensionality s = dimensionality s'"
    "data s = data s'" "domain_left_edge s = domain_left_edge s'"
    "domain_right_edge s = domain_right_edge s'" "current_time s = current_time s'"
  using assms
  by (auto simp: ExodusIIDataset_parse_parameter_file_def bind_eq_Inr Let_def
      parse_lines_115_122_def)

lemma slice_all_eq_Inr [simp]: "slice_all x = Inr a \<longleftrightarrow> x = NDArray a"
  by (cases x) (auto simp: slice_all_def)

section \<open>The YTData frontend: validity probe and required attributes\<close>

text \<open>The comparison of a value with a list of string literals, by the type of the value.\<close>

lemma py_in_str: "py_in np_equal (PyStr t) tags = Inr (t \<in> set tags)"
  by (induction tags) (auto simp: py_eq_str_def)

lemma py_in_many:
  "2 \<le> length (cells a) \<Longrightarrow> tags \<noteq> [] \<Longrightarrow> py_in np_equal (NDArray a) tags = Inl ValueError"
  by (cases tags; cases "cells a"; cases "tl (cells a)") (auto simp: py_eq_str_def)

lemma py_in_one:
  "cells a = [c] \<Longrightarrow> py_in np_equal (NDArray a) tags = Inr (\<exists>s \<in> set tags. np_equal c s)"
  by (induction tags) (auto simp: py_eq_str_def)

lemma py_in_empty: "cells a = [] \<Longrightarrow> py_in np_equal (NDArray a) tags = Inr False"
  by (induction tags) (auto simp: py_eq_str_def)

lemma py_in_other:
  "\<forall>t. v \<noteq> PyStr t \<Longrightarrow> \<forall>a. v \<noteq> NDArray a \<Longrightarrow> py_in np_equal v tags = Inr False"
  by (induction tags) (auto simp: py_eq_str_def split: pyval.splits)

text \<open>
  C1, as it stands, fails. The two probes of the container format have no handler. With the
  expected suffix, an exception of \<^verbatim>\<open>h5py.File\<close> (here: no such file) reaches the
  caller instead of becoming \<^verbatim>\<open>False\<close>; and so does the \<^verbatim>\<open>ValueError\<close> of comparing
  the array of two tags that \<^verbatim>\<open>rays.h5\<close> holds as \<^verbatim>\<open>data_type\<close> with the recognised
  tags.
\<close>

theorem container_probe_errors_propagate:
  "YTDataContainerDataset_is_valid (h5_absent :: string \<Rightarrow> py_error + int h5file)
       number_equal ''halos.h5'' = Inl IOError
   \<and> YTGridDataset_is_valid (h5_absent :: string \<Rightarrow> py_error + int h5file)
       number_equal ''halos.h5'' = Inl IOError
   \<and> YTDataContainerDataset_is_valid tagged_h5 str_equal ''rays.h5'' = Inl ValueError
   \<and> YTGridDataset_is_valid tagged_h5 str_equal ''rays.h5'' = Inl ValueError"
  by (simp add: YTDataContainerDataset_is_valid_def YTGridDataset_is_valid_def h5_absent_def
      tagged_h5_def endswith_def dict_getitem_def py_eq_str_def bind_def)

text \<open>
  C1, amended: a file name without the suffix \<^verbatim>\<open>.h5\<close> gives \<^verbatim>\<open>False\<close> whatever opening
  the file would do, so the file is not opened. With the suffix, an exception of opening
  the file reaches the caller. When the file opens, the result depends on the attribute
  \<^verbatim>\<open>data_type\<close>: missing, it gives \<^verbatim>\<open>False\<close>; a string, it gives \<^verbatim>\<open>True\<close> exactly
  when the string is one of the recognised tags; an array of two or more elements, the
  probe raises \<^verbatim>\<open>ValueError\<close>; an array of one element, it gives whether numpy finds that
  element equal to a recognised tag; an empty array, or a value of any other type, it
  gives \<^verbatim>\<open>False\<close>.
\<close>

theorem container_probe_outcomes:
  "(\<not> endswith filename ''.h5'' \<longrightarrow>
       YTDataContainerDataset_is_valid h5py_File np_equal filename = Inr False \<and>
       YTGridDataset_is_valid h5py_File np_equal filename = Inr False)
   \<and> (endswith filename ''.h5'' \<longrightarrow>
       (\<forall>e. h5py_File filename = Inl e \<longrightarrow>
          YTDataContainerDataset_is_valid h5py_File np_equal filename = Inl e \<and>
          YTGridDataset_is_valid h5py_File np_equal filename = Inl e)
       \<and> (\<forall>f. h5py_File filename = Inr f \<longrightarrow>
          (attrs f ''data_type'' = None \<longrightarrow>
             YTDataContainerDataset_is_valid h5py_File np_equal filename = Inr False \<and>
             YTGridDataset_is_valid h5py_File np_equal filename = Inr False)
          \<and> (\<forall>t. attrs f ''data_type'' = Some (PyStr t) \<longrightarrow>
             YTDataContainerDataset_is_valid h5py_File np_equal filename =
               Inr (t = ''light_ray'' \<or> t = ''yt_array_data'' \<or> t = ''yt_data_container'') \<and>
             YTGridDataset_is_valid h5py_File np_equal filename = Inr (t = ''yt_grid_data''))
          \<and> (\<forall>a. attrs f ''data_type'' = Some (NDArray a) \<longrightarrow>
             (2 \<le> length (cells a) \<longrightarrow>
                YTDataContainerDataset_is_valid h5py_File np_equal filename = Inl ValueError \<and>
                YTGridDataset_is_valid h5py_File np_equal filename = Inl ValueError)
             \<and> (\<forall>c. cells a = [c] \<longrightarrow>
                YTDataContainerDataset_is_valid h5py_File np_equal filename =
                  Inr (np_equal c ''light_ray'' \<or> np_equal c ''yt_array_data''
                       \<or> np_equal c ''yt_data_container'') \<and>
                YTGridDataset_is_valid h5py_File np_equal filename =
                  Inr (np_equal c ''yt_grid_data''))
             \<and> (cells a = [] \<longrightarrow>
                YTDataContainerDataset_is_valid h5py_File np_equal filename = Inr False \<and>
                YTGridDataset_is_valid h5py_File np_equal filename = Inr False))
          \<and> (\<forall>v. attrs f ''data_type'' = Some v \<and> (\<forall>t. v \<noteq> PyStr t) \<and> (\<forall>a. v \<noteq> NDArray a)
               \<longrightarrow>
             YTDataContainerDataset_is_valid h5py_File np_equal filename = Inr False \<and>
             YTGridDataset_is_valid h5py_File np_equal filename = Inr False)))"
proof -
  have closed: "YTDataContainerDataset_is_valid h5py_File np_equal filename = Inr False"
    "YTGridDataset_is_valid h5py_File np_equal filename = Inr False"
    if "\<not> endswith filename ''.h5''"
    using that by (simp_all add: YTDataContainerDataset_is_valid_def YTGridDataset_is_valid_def)
  have failed: "YTDataContainerDataset_is_valid h5py_File np_equal filename = Inl e"
    "YTGridDataset_is_valid h5py_File np_equal filename = Inl e"
    if "endswith filename ''.h5''" "h5py_File filename = Inl e" for e
    using that by (simp_all add: YTDataContainerDataset_is_valid_def YTGridDataset_is_valid_def)
  have missing: "YTDataContainerDataset_is_valid h5py_File np_equal filename = Inr False"
    "YTGridDataset_is_valid h5py_File np_equal filename = Inr False"
    if "endswith filename ''.h5''" "h5py_File filename = Inr f" "attrs f ''data_type'' = None"
    for f
    using that by (simp_all add: YTDataContainerDataset_is_valid_def YTGridDataset_is_valid_def)
  have present: "YTDataContainerDataset_is_valid h5py_File np_equal filename =
        bind (py_in np_equal v [''light_ray'', ''yt_array_data'', ''yt_data_container''])
          (\<lambda>found. if found then Inr True else Inr False)"
    "YTGridDataset_is_valid h5py_File np_equal filename =
        bind (py_in np_equal v [''yt_grid_data''])
          (\<lambda>found. if found then Inr True else Inr False)"
    if "endswith filename ''.h5''" "h5py_File filename = Inr f" "attrs f ''data_type'' = Some v"
    for f v
    using that
    by (simp_all add: YTDataContainerDataset_is_valid_def YTGridDataset_is_valid_def
        dict_getitem_def del: py_in.simps)
  show ?thesis
  proof (intro conjI impI allI; (elim conjE)?)
    show "YTDataContainerDataset_is_valid h5py_File np_equal filename = Inr False"
      if "\<not> endswith filename ''.h5''"
      using that by (rule closed)
    show "YTGridDataset_is_valid h5py_File np_equal filename = Inr False"
      if "\<not> endswith filename ''.h5''"
      using that by (rule closed)
  qed (simp_all add: failed missing present py_in_str py_in_many py_in_one py_in_empty
        py_in_other del: py_in.simps)
qed

text \<open>
  The two probes on a name without the suffix, on a path that cannot be opened, on
  \<^verbatim>\<open>sphere.h5\<close> (a saved data container: the tag is a string, two other attributes are
  an array of three numbers and a number), and on the files whose \<^verbatim>\<open>data_type\<close> is
  missing, an array of one tag and an array of two tags.
\<close>

theorem container_probe_outcomes_witness:
  "YTDataContainerDataset_is_valid example_h5 number_equal ''sphere.hdf5'' = Inr False
   \<and> YTGridDataset_is_valid example_h5 number_equal ''sphere.hdf5'' = Inr False
   \<and> YTDataContainerDataset_is_valid example_h5 number_equal ''nowhere.h5'' = Inl IOError
   \<and> YTDataContainerDataset_is_valid example_h5 number_equal ''sphere.h5'' = Inr True
   \<and> YTGridDataset_is_valid example_h5 number_equal ''sphere.h5'' = Inr False
   \<and> YTDataContainerDataset_is_valid tagged_h5 str_equal ''bare.h5'' = Inr False
   \<and> YTDataContainerDataset_is_valid tagged_h5 str_equal ''ray.h5'' = Inr True
   \<and> YTGridDataset_is_valid tagged_h5 str_equal ''ray.h5'' = Inr False
   \<and> YTDataContainerDataset_is_valid tagged_h5 str_equal ''rays.h5'' = Inl ValueError
   \<and> YTGridDataset_is_valid tagged_h5 str_equal ''rays.h5'' = Inl ValueError"
proof -
  have suffix: "\<not> endswith ''sphere.hdf5'' ''.h5''" "endswith ''nowhere.h5'' ''.h5''"
    "endswith ''sphere.h5'' ''.h5''" "endswith ''bare.h5'' ''.h5''"
    "endswith ''ray.h5'' ''.h5''" "endswith ''rays.h5'' ''.h5''"
    by (simp_all add: endswith_def)
  show ?thesis
    using container_probe_outcomes [of "''sphere.hdf5''" example_h5 number_equal]
      container_probe_outcomes [of "''nowhere.h5''" example_h5 number_equal]
      container_probe_outcomes [of "''sphere.h5''" example_h5 number_equal]
      container_probe_outcomes [of "''bare.h5''" tagged_h5 str_equal]
      container_probe_outcomes [of "''ray.h5''" tagged_h5 str_equal]
      container_probe_outcomes [of "''rays.h5''" tagged_h5 str_equal]
      suffix
    by (simp add: example_h5_def example_attrs_def tagged_h5_def str_equal_def)
qed

text \<open>The loop over the required names stops with \<^verbatim>\<open>KeyError\<close> at a missing one.\<close>

lemma copy_attrs_missing:
  "attr \<in> set names \<Longrightarrow> hvals attr = None \<Longrightarrow> copy_attrs hvals names self = Inl KeyError"
  by (induction names arbitrary: self) (auto simp: bind_def dict_getitem_def split: option.splits)

text \<open>With every required name present it assigns the eight attributes and nothing else.\<close>

lemma copy_attrs_required:
  assumes "\<forall>attr \<in> set required_attrs. hvals attr \<noteq> None"
  shows "\<exists>ds. copy_attrs hvals required_attrs self = Inr ds
     \<and> over_refine_factor ds = over_refine_factor self
     \<and> parameters ds = parameters self
     \<and> hvals ''cosmological_simulation'' = Some (cosmological_simulation ds)
     \<and> hvals ''current_time'' = Some (current_time ds)
     \<and> hvals ''current_redshift'' = Some (current_redshift ds)
     \<and> hvals ''hubble_constant'' = Some (hubble_constant ds)
     \<and> hvals ''omega_matter'' = Some (omega_matter ds)
     \<and> hvals ''omega_lambda'' = Some (omega_lambda ds)
     \<and> hvals ''domain_left_edge'' = Some (domain_left_edge ds)
     \<and> hvals ''domain_right_edge'' = Some (domain_right_edge ds)"
  using assms
  by (auto simp: required_attrs_def bind_def dict_getitem_def setattr_def)

text \<open>
  C6: once the file is open and \<^verbatim>\<open>os.stat\<close> has answered, parsing ends in
  \<^verbatim>\<open>KeyError\<close> when one of the eight attributes is missing from the file; when all are
  there (and the over-refine factor is not negative, so that the shift of line 84 is
  defined) it succeeds, and each of the eight attributes of the dataset is the value the
  file holds under that name.
\<close>

theorem container_required_attributes:
  assumes "h5py_File (parameter_filename self) = Inr f"
    and "st_ctime (parameter_filename self) = Inr t"
  shows
    "((\<exists>attr \<in> set [''cosmological_simulation'', ''current_time'', ''current_redshift'',
          ''hubble_constant'', ''omega_matter'', ''omega_lambda'',
          ''domain_left_edge'', ''domain_right_edge'']. attrs f attr = None) \<longrightarrow>
        YTDataContainerDataset_parse_parameter_file h5py_File st_ctime self = Inl KeyError)
     \<and> ((\<forall>attr \<in> set [''cosmological_simulation'', ''current_time'', ''current_redshift'',
          ''hubble_constant'', ''omega_matter'', ''omega_lambda'',
          ''domain_left_edge'', ''domain_right_edge'']. attrs f attr \<noteq> None)
          \<and> 0 \<le> over_refine_factor self \<longrightarrow>
        (\<exists>ds. YTDataContainerDataset_parse_parameter_file h5py_File st_ctime self = Inr ds
           \<and> attrs f ''cosmological_simulation'' = Some (cosmological_simulation ds)
           \<and> attrs f ''current_time'' = Some (current_time ds)
           \<and> attrs f ''current_redshift'' = Some (current_redshift ds)
           \<and> attrs f ''hubble_constant'' = Some (hubble_constant ds)
           \<and> attrs f ''omega_matter'' = Some (omega_matter ds)
           \<and> attrs f ''omega_lambda'' = Some (omega_lambda ds)
           \<and> attrs f ''domain_left_edge'' = Some (domain_left_edge ds)
           \<and> attrs f ''domain_right_edge'' = Some (domain_right_edge ds)))"
proof (intro conjI impI)
  define s0 where "s0 = self\<lparr>particle_types_raw := h5keys f, particle_types := h5keys f,
      dimensionality := 3, refine_by := 2, unique_identifier := PyInt t,
      filename_template := parameter_filename self, file_count := 1\<rparr>"
  {
    assume "\<exists>attr \<in> set [''cosmological_simulation'', ''current_time'', ''current_redshift'',
          ''hubble_constant'', ''omega_matter'', ''omega_lambda'',
          ''domain_left_edge'', ''domain_right_edge'']. attrs f attr = None"
    then obtain attr where a: "attr \<in> set required_attrs" "attrs f attr = None"
      unfolding required_attrs_def by blast
    have "copy_attrs (attrs f) required_attrs s0 = Inl KeyError"
      using a by (rule copy_attrs_missing)
    then show "YTDataContainerDataset_parse_parameter_file h5py_File st_ctime self = Inl KeyError"
      using assms
      by (simp add: YTDataContainerDataset_parse_parameter_file_def bind_def Let_def s0_def)
  next
    assume h: "(\<forall>attr \<in> set [''cosmological_simulation'', ''current_time'', ''current_redshift'',
          ''hubble_constant'', ''omega_matter'', ''omega_lambda'',
          ''domain_left_edge'', ''domain_right_edge'']. attrs f attr \<noteq> None)
          \<and> 0 \<le> over_refine_factor self"
    then have all: "\<forall>attr \<in> set required_attrs. attrs f attr \<noteq> None"
      unfolding required_attrs_def by blast
    from copy_attrs_required [OF all, of s0] obtain ds where
      ds: "copy_attrs (attrs f) required_attrs s0 = Inr ds"
        "over_refine_factor ds = over_refine_factor s0"
        "attrs f ''cosmological_simulation'' = Some (cosmological_simulation ds)"
        "attrs f ''current_time'' = Some (current_time ds)"
        "attrs f ''current_redshift'' = Some (current_redshift ds)"
        "attrs f ''hubble_constant'' = Some (hubble_constant ds)"
        "attrs f ''omega_matter'' = Some (omega_matter ds)"
        "attrs f ''omega_lambda'' = Some (omega_lambda ds)"
        "attrs f ''domain_left_edge'' = Some (domain_left_edge ds)"
        "attrs f ''domain_right_edge'' = Some (domain_right_edge ds)"
      by blast
    have orf: "over_refine_factor ds = over_refine_factor self"
      using ds(2) by (simp add: s0_def)
    show "\<exists>ds. YTDataContainerDataset_parse_parameter_file h5py_File st_ctime self = Inr ds
           \<and> attrs f ''cosmological_simulation'' = Some (cosmological_simulation ds)
           \<and> attrs f ''current_time'' = Some (current_time ds)
           \<and> attrs f ''current_redshift'' = Some (current_redshift ds)
           \<and> attrs f ''hubble_constant'' = Some (hubble_constant ds)
           \<and> attrs f ''omega_matter'' = Some (omega_matter ds)
           \<and> attrs f ''omega_lambda'' = Some (omega_lambda ds)
           \<and> attrs f ''domain_left_edge'' = Some (domain_left_edge ds)
           \<and> attrs f ''domain_right_edge'' = Some (domain_right_edge ds)"
      using assms h ds orf
      by (simp add: YTDataContainerDataset_parse_parameter_file_def bind_def Let_def
          lshift1_def s0_def)
  }
qed

text \<open>The parser on \<^verbatim>\<open>sphere.h5\<close>, which has the eight attributes, and on \<^verbatim>\<open>partial.h5\<close>, which lacks
  \<^verbatim>\<open>omega_lambda\<close>.\<close>

theorem container_required_attributes_witness:
  "(\<exists>ds. YTDataContainerDataset_parse_parameter_file example_h5 example_ctime
           example_container = Inr ds
        \<and> current_time ds = PyFloat 2 \<and> omega_lambda ds = PyFloat 0.7)
   \<and> YTDataContainerDataset_parse_parameter_file example_h5 example_ctime
         (example_container\<lparr>parameter_filename := ''partial.h5''\<rparr>) = Inl KeyError"
proof -
  let ?f = "\<lparr>attrs = example_attrs, h5keys = [''grid'']\<rparr>"
  let ?g = "\<lparr>attrs = example_attrs(''omega_lambda'' := None), h5keys = [''grid'']\<rparr>"
  let ?partial = "example_container\<lparr>parameter_filename := ''partial.h5''\<rparr>"
  have f: "example_h5 (parameter_filename example_container) = Inr ?f"
    and t: "example_ctime (parameter_filename example_container) = Inr 1446595200"
    by (simp_all add: example_h5_def example_ctime_def example_container_def)
  have g: "example_h5 (parameter_filename ?partial) = Inr ?g"
    and u: "example_ctime (parameter_filename ?partial) = Inr 1446595200"
    by (simp_all add: example_h5_def example_ctime_def)
  have factor: "0 \<le> over_refine_factor example_container"
    by (simp add: example_container_def)
  show ?thesis
    using container_required_attributes
        [where h5py_File = example_h5 and st_ctime = example_ctime
           and self = example_container, OF f t]
      container_required_attributes
        [where h5py_File = example_h5 and st_ctime = example_ctime
           and self = ?partial, OF g u]
      factor
    by (auto simp: example_attrs_def)
qed

section \<open>The Exodus II frontend: validity probe\<close>

text \<open>
  What holds of the probe for every path: it raises nothing, and it returns \<^verbatim>\<open>True\<close>
  exactly when the file opens and has the variable \<^verbatim>\<open>connect1\<close>. In every other case
  the method ends behind \<^verbatim>\<open>except: pass\<close> without a \<^verbatim>\<open>return\<close>.
\<close>

lemma exodus_probe_never_raises:
  "(ExodusIIDataset_is_valid env filename = Inr (PyBool True)
      \<or> ExodusIIDataset_is_valid env filename = Inr PyNone)
   \<and> (NetCDF4FileHandler env filename = Inl e \<longrightarrow>
      ExodusIIDataset_is_valid env filename = Inr PyNone)
   \<and> (NetCDF4FileHandler env filename = Inr variables \<and> variables ''connect1'' = None \<longrightarrow>
      ExodusIIDataset_is_valid env filename = Inr PyNone)
   \<and> (NetCDF4FileHandler env filename = Inr variables \<and> variables ''connect1'' \<noteq> None \<longrightarrow>
      ExodusIIDataset_is_valid env filename = Inr (PyBool True))"
  by (cases "NetCDF4FileHandler env filename")
    (auto simp: ExodusIIDataset_is_valid_def dict_getitem_def split: option.splits)

text \<open>
  C2: the probe is to return the boolean \<^verbatim>\<open>False\<close> for a file without the variable
  \<^verbatim>\<open>connect1\<close> and for a path that does not exist. The code returns the boolean
  \<^verbatim>\<open>True\<close> for \<^verbatim>\<open>mesh.e\<close>, which has the variable, but for \<^verbatim>\<open>notes.e\<close>, a netCDF
  file without it, and for the missing \<^verbatim>\<open>nowhere.e\<close> it returns \<^verbatim>\<open>None\<close>, which is
  not a boolean: the \<^verbatim>\<open>return False\<close> with which the two probes of the YTData frontend
  end is missing here.
\<close>

theorem exodus_probe_returns_none_not_false:
  "ExodusIIDataset_is_valid example_env ''mesh.e'' = Inr (PyBool True)
   \<and> ExodusIIDataset_is_valid example_env ''notes.e'' = Inr PyNone
   \<and> ExodusIIDataset_is_valid example_env ''nowhere.e'' = Inr PyNone
   \<and> (PyNone :: int pyval) \<noteq> PyBool False"
  by (simp add: ExodusIIDataset_is_valid_def example_env_def example_netcdf_def
      mesh_variables_def dict_getitem_def)

section \<open>The Exodus II frontend: unique identifier and current time\<close>

text \<open>What \<^verbatim>\<open>x[0]\<close> and \<^verbatim>\<open>x[key]\<close> can raise.\<close>

lemma py_index_error: "py_index n i = Inl e \<Longrightarrow> e = IndexError"
  by (auto simp: py_index_def Let_def split: if_splits)

lemma subscript_int_error:
  "subscript_int x i = Inl e \<Longrightarrow> e = IndexError \<or> e = KeyError \<or> e = TypeError"
  by (cases x)
    (auto simp: subscript_int_def ndarray_getitem_def bind_eq_Inl
      dest: py_index_error split: list.splits)

lemma subscript_str_error:
  "subscript_str x key = Inl e \<Longrightarrow>
     e = KeyError \<or> e = TypeError \<or> (e = IndexError \<and> (\<exists>a. x = NDArray a))"
  by (cases x) (auto simp: subscript_str_def)

text \<open>
  C8, as it stands, fails: the handlers catch \<^verbatim>\<open>KeyError\<close> and \<^verbatim>\<open>TypeError\<close> only. A
  file written before its first time step has \<^verbatim>\<open>time_whole\<close> of length 0; its entry 0
  raises \<^verbatim>\<open>IndexError\<close>, which leaves \<^verbatim>\<open>_get_current_time\<close> and ends the parsing.
\<close>

theorem current_time_raises_on_empty_time_whole:
  "bind (ExodusIIDataset_load_variables example_env (example_dataset ''static.e''))
      ExodusIIDataset_get_current_time = Inl IndexError
   \<and> ExodusIIDataset_parse_parameter_file example_env (example_dataset ''static.e'')
      = Inl IndexError"
proof -
  have "case bind (ExodusIIDataset_load_variables example_env (example_dataset ''static.e''))
          ExodusIIDataset_get_current_time of
          Inl e \<Rightarrow> e = IndexError | Inr t \<Rightarrow> False"
    by code_simp
  moreover have
    "case ExodusIIDataset_parse_parameter_file example_env (example_dataset ''static.e'') of
       Inl e \<Rightarrow> e = IndexError | Inr s \<Rightarrow> False"
    by code_simp
  ultimately show ?thesis
    by (simp split: sum.splits)
qed

text \<open>
  C8, amended. The unique identifier is the nested field \<^verbatim>\<open>'Version Info'\<close>,
  \<^verbatim>\<open>'Executable Timestamp'\<close> of the parsed info records when the two lookups succeed, and
  the hash of the file name when the records are absent or a lookup raises \<^verbatim>\<open>KeyError\<close>
  or \<^verbatim>\<open>TypeError\<close>. The current time is entry 0 of \<^verbatim>\<open>time_whole\<close> when it has one, and
  \<open>0.0\<close> when \<^verbatim>\<open>time_whole\<close> is absent or reading its entry 0 raises \<^verbatim>\<open>KeyError\<close> or
  \<^verbatim>\<open>TypeError\<close>. Neither function raises one of these two exceptions; the one exception
  that can leave either is an \<^verbatim>\<open>IndexError\<close> of the lookup itself.
\<close>

theorem identifier_and_time_fallbacks:
  "(parameters self ''info_records'' = Some records
      \<and> subscript_str records ''Version Info'' = Inr info
      \<and> subscript_str info ''Executable Timestamp'' = Inr stamp \<longrightarrow>
      ExodusIIDataset_get_unique_identifier env self = Inr stamp)
   \<and> (parameters self ''info_records'' = None
        \<or> (\<exists>r e. parameters self ''info_records'' = Some r
              \<and> subscript_str r ''Version Info'' = Inl e \<and> key_or_type_error e)
        \<or> (\<exists>r i e. parameters self ''info_records'' = Some r
              \<and> subscript_str r ''Version Info'' = Inr i
              \<and> subscript_str i ''Executable Timestamp'' = Inl e \<and> key_or_type_error e) \<longrightarrow>
      ExodusIIDataset_get_unique_identifier env self
        = Inr (PyInt (str_hash env (parameter_filename self))))
   \<and> (ExodusIIDataset_get_unique_identifier env self = Inl err \<longrightarrow> err = IndexError)
   \<and> (parameters self ''time_whole'' = Some t \<and> subscript_int t 0 = Inr first \<longrightarrow>
      ExodusIIDataset_get_current_time self = Inr first)
   \<and> (parameters self ''time_whole'' = None
        \<or> (\<exists>t e. parameters self ''time_whole'' = Some t
              \<and> subscript_int t 0 = Inl e \<and> key_or_type_error e) \<longrightarrow>
      ExodusIIDataset_get_current_time self = Inr (PyFloat 0))
   \<and> (ExodusIIDataset_get_current_time self = Inl err \<longrightarrow> err = IndexError)"
proof (intro conjI impI)
  assume "ExodusIIDataset_get_unique_identifier env self = Inl err"
  then show "err = IndexError"
    by (auto simp: ExodusIIDataset_get_unique_identifier_def except_key_or_type_def
        key_or_type_error_def bind_eq_Inl
        split: sum.splits if_splits dest!: subscript_str_error)
next
  assume "ExodusIIDataset_get_current_time self = Inl err"
  then show "err = IndexError"
    by (auto simp: ExodusIIDataset_get_current_time_def except_key_or_type_def
        key_or_type_error_def bind_eq_Inl
        split: sum.splits if_splits dest!: subscript_int_error)
qed (auto simp: ExodusIIDataset_get_unique_identifier_def ExodusIIDataset_get_current_time_def
    except_key_or_type_def dict_getitem_def key_or_type_error_def)

text \<open>The two functions on a dataset with a time stamp and two time steps, on one without
  parameters, and on one whose lookups raise \<^verbatim>\<open>IndexError\<close>.\<close>

theorem identifier_and_time_fallbacks_witness:
  "ExodusIIDataset_get_unique_identifier example_env stamped_dataset = Inr (PyStr ''Nov 3'')
   \<and> ExodusIIDataset_get_current_time stamped_dataset = Inr (NDArray (Ndarray [] [4]))
   \<and> ExodusIIDataset_get_unique_identifier example_env (example_dataset ''mesh.e'')
       = Inr (PyInt 6)
   \<and> ExodusIIDataset_get_current_time (example_dataset ''mesh.e'') = Inr (PyFloat 0)
   \<and> ExodusIIDataset_get_unique_identifier example_env odd_dataset = Inl IndexError
   \<and> ExodusIIDataset_get_current_time odd_dataset = Inl IndexError"
proof -
  let ?info = "PyDict [(''Executable Timestamp'', PyStr ''Nov 3'')] :: int pyval"
  have stamped:
    "parameters stamped_dataset ''info_records'' = Some (PyDict [(''Version Info'', ?info)])
     \<and> subscript_str (PyDict [(''Version Info'', ?info)]) ''Version Info'' = Inr ?info
     \<and> subscript_str ?info ''Executable Timestamp'' = Inr (PyStr ''Nov 3'')"
    "parameters stamped_dataset ''time_whole'' = Some (NDArray (Ndarray [2] [4, 5]))
     \<and> subscript_int (NDArray (Ndarray [2] [4, 5 :: int])) 0 = Inr (NDArray (Ndarray [] [4]))"
    by (simp_all add: stamped_dataset_def subscript_str_def subscript_int_def dict_getitem_def
        ndarray_getitem_def py_index_def item_def)
  have bare: "parameters (example_dataset ''mesh.e'') ''info_records'' = None"
    "parameters (example_dataset ''mesh.e'') ''time_whole'' = None"
    "str_hash example_env (parameter_filename (example_dataset ''mesh.e'')) = 6"
    by (simp_all add: example_dataset_def example_env_def)
  have odd: "\<exists>e. ExodusIIDataset_get_unique_identifier example_env odd_dataset = Inl e"
    "\<exists>e. ExodusIIDataset_get_current_time odd_dataset = Inl e"
    by (simp_all add: ExodusIIDataset_get_unique_identifier_def
        ExodusIIDataset_get_current_time_def except_key_or_type_def key_or_type_error_def
        odd_dataset_def subscript_str_def subscript_int_def dict_getitem_def
        ndarray_getitem_def py_index_def)
  then obtain e1 e2 where e:
    "ExodusIIDataset_get_unique_identifier example_env odd_dataset = Inl e1"
    "ExodusIIDataset_get_current_time odd_dataset = Inl e2"
    by blast
  show ?thesis
    using identifier_and_time_fallbacks
        [of stamped_dataset "PyDict [(''Version Info'', ?info)]" ?info "PyStr ''Nov 3''"
           example_env _ "NDArray (Ndarray [2] [4, 5])" "NDArray (Ndarray [] [4])"]
      identifier_and_time_fallbacks [of "example_dataset ''mesh.e''" _ _ _ example_env]
      identifier_and_time_fallbacks [of odd_dataset _ _ _ example_env e1]
      identifier_and_time_fallbacks [of odd_dataset _ _ _ example_env e2]
      stamped bare e
    by simp
qed

section \<open>The Exodus II frontend: global variables\<close>

text \<open>The assignments of the loop: the last value assigned to a name stays, every other
  name keeps its value.\<close>

lemma set_parameters_other:
  "key \<notin> fst ` set kvs \<Longrightarrow> set_parameters kvs p key = p key"
  by (induction kvs p rule: set_parameters.induct) auto

lemma set_parameters_last:
  assumes "k < length kvs"
    and "\<forall>k'. k < k' \<and> k' < length kvs \<longrightarrow> fst (kvs ! k') \<noteq> fst (kvs ! k)"
  shows "set_parameters kvs p (fst (kvs ! k)) = Some (snd (kvs ! k))"
  using assms
proof (induction kvs arbitrary: p k)
  case Nil
  then show ?case by simp
next
  case (Cons kv rest)
  obtain name v where kv: "kv = (name, v)" by (cases kv)
  show ?case
  proof (cases k)
    case 0
    have "name \<notin> fst ` set rest"
    proof
      assume "name \<in> fst ` set rest"
      then obtain i where "i < length rest" "fst (rest ! i) = name"
        by (auto simp: in_set_conv_nth)
      then show False
        using Cons.prems(2) [rule_format, of "Suc i"] 0 kv by simp
    qed
    then show ?thesis
      using 0 kv by (simp add: set_parameters_other)
  next
    case (Suc k')
    have "set_parameters rest (p(name \<mapsto> v)) (fst (rest ! k')) = Some (snd (rest ! k'))"
    proof (rule Cons.IH)
      show "k' < length rest" using Cons.prems(1) Suc by simp
      show "\<forall>j. k' < j \<and> j < length rest \<longrightarrow> fst (rest ! j) \<noteq> fst (rest ! k')"
      proof (intro allI impI)
        fix j assume "k' < j \<and> j < length rest"
        then show "fst (rest ! j) \<noteq> fst (rest ! k')"
          using Cons.prems(2) [rule_format, of "Suc j"] Suc by simp
      qed
    qed
    then show ?thesis
      using Suc kv by simp
  qed
qed

lemma iter_transpose_2d:
  assumes "shape a = [T, G]"
  shows "ndarray_iter (transpose_nd a)
    = Inr (map (\<lambda>k. Ndarray [T] (map (\<lambda>t. cells a ! (t * G + k)) [0..<T])) [0..<G])"
proof -
  have "map (item (transpose_nd a)) [0..<G]
      = map (\<lambda>k. Ndarray [T] (map (\<lambda>t. cells a ! (t * G + k)) [0..<T])) [0..<G]"
    using assms by (auto simp: transpose_item column_def)
  then show ?thesis
    using assms by (simp add: ndarray_iter_def transpose_2d)
qed

lemma get_glo_names_absent:
  "parameters self ''name_glo_var'' = None \<Longrightarrow> ExodusIIDataset_get_glo_names env self = Inr []"
  by (simp add: ExodusIIDataset_get_glo_names_def decoded_names_def except_key_or_type_def
      key_or_type_error_def dict_getitem_def)

text \<open>
  C9. Without \<^verbatim>\<open>name_glo_var\<close> the list of global names is empty and \<^verbatim>\<open>_read_glo_var\<close>
  returns the dataset as it was, raising nothing. With a non-empty list and a
  \<^verbatim>\<open>vals_glo_var\<close> of \<open>T\<close> time steps by \<open>G\<close> variables, the \<open>k\<close>-th name becomes a
  parameter whose value is column \<open>k\<close> of \<^verbatim>\<open>vals_glo_var\<close>, the row \<open>k\<close> of its transpose
  (\<^verbatim>\<open>zip\<close> stops at the shorter of the two lists, and of two equal names the later one
  stays); no other parameter changes.
\<close>

theorem global_variables_become_parameters:
  "(parameters self ''name_glo_var'' = None \<longrightarrow>
      ExodusIIDataset_get_glo_names env self = Inr []
      \<and> ExodusIIDataset_read_glo_var env self = Inr self)
   \<and> (ExodusIIDataset_get_glo_names env self = Inr names \<and> names \<noteq> []
       \<and> parameters self ''vals_glo_var'' = Some (NDArray a) \<and> shape a = [T, G] \<longrightarrow>
      (\<exists>s. ExodusIIDataset_read_glo_var env self = Inr s
         \<and> (\<forall>k. k < length names \<and> k < G
                \<and> (\<forall>k'. k < k' \<and> k' < length names \<and> k' < G \<longrightarrow> names ! k' \<noteq> names ! k) \<longrightarrow>
              parameters s (names ! k)
                = Some (NDArray (Ndarray [T] (map (\<lambda>t. cells a ! (t * G + k)) [0..<T]))))
         \<and> (\<forall>key. key \<notin> set (take G names) \<longrightarrow> parameters s key = parameters self key)))"
proof (intro conjI impI)
  assume "parameters self ''name_glo_var'' = None"
  then show "ExodusIIDataset_get_glo_names env self = Inr []"
    by (rule get_glo_names_absent)
  then show "ExodusIIDataset_read_glo_var env self = Inr self"
    by (simp add: ExodusIIDataset_read_glo_var_def)
next
  assume h: "ExodusIIDataset_get_glo_names env self = Inr names \<and> names \<noteq> []
       \<and> parameters self ''vals_glo_var'' = Some (NDArray a) \<and> shape a = [T, G]"
  define cols where
    "cols = map (\<lambda>k. NDArray (Ndarray [T] (map (\<lambda>t. cells a ! (t * G + k)) [0..<T]))) [0..<G]"
  define kvs where "kvs = zip names cols"
  define s where "s = self\<lparr>parameters := set_parameters kvs (parameters self)\<rparr>"
  have len: "length kvs = min (length names) G"
    by (simp add: kvs_def cols_def)
  have run: "ExodusIIDataset_read_glo_var env self = Inr s"
    using h iter_transpose_2d [of a T G]
    by (simp add: ExodusIIDataset_read_glo_var_def slice_all_def s_def kvs_def cols_def
        dict_getitem_def comp_def)
  have each: "parameters s (names ! k)
      = Some (NDArray (Ndarray [T] (map (\<lambda>t. cells a ! (t * G + k)) [0..<T])))"
    if k: "k < length names \<and> k < G
      \<and> (\<forall>k'. k < k' \<and> k' < length names \<and> k' < G \<longrightarrow> names ! k' \<noteq> names ! k)" for k
  proof -
    have "set_parameters kvs (parameters self) (fst (kvs ! k)) = Some (snd (kvs ! k))"
    proof (rule set_parameters_last)
      show "k < length kvs" using k len by simp
      show "\<forall>k'. k < k' \<and> k' < length kvs \<longrightarrow> fst (kvs ! k') \<noteq> fst (kvs ! k)"
        using k len by (auto simp: kvs_def cols_def)
    qed
    then show ?thesis
      using k by (simp add: s_def kvs_def cols_def)
  qed
  have rest: "parameters s key = parameters self key" if "key \<notin> set (take G names)" for key
  proof -
    have "map fst kvs = take G names"
      by (simp add: kvs_def cols_def map_fst_zip_take min_def)
    then have "fst ` set kvs = set (take G names)"
      by (simp flip: set_map)
    then show ?thesis
      using that by (simp add: s_def set_parameters_other)
  qed
  show "\<exists>s. ExodusIIDataset_read_glo_var env self = Inr s
         \<and> (\<forall>k. k < length names \<and> k < G
                \<and> (\<forall>k'. k < k' \<and> k' < length names \<and> k' < G \<longrightarrow> names ! k' \<noteq> names ! k) \<longrightarrow>
              parameters s (names ! k)
                = Some (NDArray (Ndarray [T] (map (\<lambda>t. cells a ! (t * G + k)) [0..<T]))))
         \<and> (\<forall>key. key \<notin> set (take G names) \<longrightarrow> parameters s key = parameters self key)"
    using run each rest by blast
qed


text \<open>The global variable \<^verbatim>\<open>g\<close> of \<^verbatim>\<open>mesh.e\<close> with its two values, and \<^verbatim>\<open>static.e\<close>, which has no
  global variable.\<close>

theorem global_variables_become_parameters_witness:
  "ExodusIIDataset_read_glo_var example_env static_loaded = Inr static_loaded
   \<and> (\<exists>s. ExodusIIDataset_read_glo_var example_env mesh_loaded = Inr s
        \<and> parameters s ''g'' = Some (NDArray (Ndarray [2] [5, 6]))
        \<and> parameters s ''time_whole'' = Some (NDArray (Ndarray [2] [0, 1])))"
proof -
  have absent: "parameters static_loaded ''name_glo_var'' = None"
    by (simp add: static_loaded_def static_variables_def)
  have names: "ExodusIIDataset_get_glo_names example_env mesh_loaded = Inr [''g'']"
    by code_simp
  have vals: "parameters mesh_loaded ''vals_glo_var'' = Some (NDArray (Ndarray [2, 1] [5, 6]))"
    by (simp add: mesh_loaded_def mesh_variables_def)
  have other: "parameters mesh_loaded ''time_whole'' = Some (NDArray (Ndarray [2] [0, 1]))"
    by (simp add: mesh_loaded_def mesh_variables_def)
  from global_variables_become_parameters
    [of mesh_loaded example_env "[''g'']" "Ndarray [2, 1] [5, 6]" 2 1]
  obtain s where s: "ExodusIIDataset_read_glo_var example_env mesh_loaded = Inr s"
    "\<forall>k. k < length [''g''] \<and> k < 1
       \<and> (\<forall>k'. k < k' \<and> k' < length [''g''] \<and> k' < 1 \<longrightarrow> [''g''] ! k' \<noteq> [''g''] ! k) \<longrightarrow>
       parameters s ([''g''] ! k)
         = Some (NDArray (Ndarray [2] (map (\<lambda>t. cells (Ndarray [2, 1] [5, 6 :: int]) ! (t * 1 + k))
              [0..<2])))"
    "\<forall>key. key \<notin> set (take 1 [''g'']) \<longrightarrow> parameters s key = parameters mesh_loaded key"
    using names vals by auto
  have "parameters s ''g'' = Some (NDArray (Ndarray [2] [5, 6]))"
    using s(2) [rule_format, of 0] by (auto simp: upt_conv_Cons)
  moreover have "parameters s ''time_whole'' = Some (NDArray (Ndarray [2] [0, 1]))"
    using s(3) [rule_format, of "''time_whole''"] other by simp
  ultimately show ?thesis
    using s(1) global_variables_become_parameters [of static_loaded example_env] absent
    by simp
qed

section \<open>The Exodus II frontend: connectivity\<close>

lemma load_connectivity_Inr:
  assumes "ExodusIIDataset_load_connectivity env s = Inr conn"
    and "parameters s ''num_meshes'' = Some (PyInt (int n))"
  shows "length conn = n"
    and "\<forall>i<n. \<exists>a. parameters s (''connect'' @ str_of_nat (i + 1)) = Some (NDArray a)
           \<and> shape (conn ! i) = shape a \<and> cells (conn ! i) = map (i8 env) (cells a)"
proof -
  have blocks: "length conn = n
      \<and> (\<forall>i<n. \<exists>a. parameters s (''connect'' @ str_of_nat (i + 1)) = Some (NDArray a)
             \<and> conn ! i = astype (i8 env) a)"
    using assms
    by (auto simp: ExodusIIDataset_load_connectivity_def py_range_def mapM_eq_Inr bind_eq_Inr)
  show "length conn = n"
    using blocks by simp
  show "\<forall>i<n. \<exists>a. parameters s (''connect'' @ str_of_nat (i + 1)) = Some (NDArray a)
      \<and> shape (conn ! i) = shape a \<and> cells (conn ! i) = map (i8 env) (cells a)"
  proof (intro allI impI)
    fix i assume "i < n"
    then obtain a where
      a: "parameters s (''connect'' @ str_of_nat (i + 1)) = Some (NDArray a)"
        "conn ! i = astype (i8 env) a"
      using blocks by blast
    show "\<exists>a. parameters s (''connect'' @ str_of_nat (i + 1)) = Some (NDArray a)
      \<and> shape (conn ! i) = shape a \<and> cells (conn ! i) = map (i8 env) (cells a)"
      using a by (intro exI [of _ a]) (simp add: astype_def)
  qed
qed



section \<open>The Exodus II frontend: domain edges\<close>

lemma fold_min_Min: "xs \<noteq> [] \<Longrightarrow> fold min (tl xs) (hd xs) = Min (set xs)"
  using Min.set_eq_fold [of "hd xs" "tl xs"] by (cases xs) simp_all

lemma fold_max_Max: "xs \<noteq> [] \<Longrightarrow> fold max (tl xs) (hd xs) = Max (set xs)"
  using Max.set_eq_fold [of "hd xs" "tl xs"] by (cases xs) simp_all

lemma column_length [simp]: "length (column a k) = hd (shape a)"
  by (simp add: column_def)

lemma reduce_axis0_Inr:
  "reduce_axis0 f a = Inr r \<longleftrightarrow>
     (\<exists>n s. shape a = n # s \<and> 0 < n
        \<and> r = Ndarray s (map (\<lambda>k. fold f (tl (column a k)) (hd (column a k))) [0..<prod_list s]))"
  by (auto simp: reduce_axis0_def split: list.splits)

lemma load_domain_edges:
  assumes "ExodusIIDataset_load_domain_edge s 0 = Inr left"
    and "ExodusIIDataset_load_domain_edge s 1 = Inr right"
  shows "\<exists>c n sh lows highs.
     parameters s ''coordinates'' = Some (NDArray c) \<and> shape c = n # sh \<and> 0 < n
     \<and> left = NDArray (Ndarray sh lows) \<and> right = NDArray (Ndarray sh highs)
     \<and> length lows = prod_list sh \<and> length highs = prod_list sh
     \<and> (\<forall>d < prod_list sh.
           lows ! d = Min (set (column c d)) \<and> highs ! d = Max (set (column c d))
           \<and> lows ! d \<le> highs ! d)"
proof -
  from assms(1) obtain x where x: "parameters s ''coordinates'' = Some x" "min_axis0 x = Inr left"
    by (auto simp: ExodusIIDataset_load_domain_edge_def bind_eq_Inr)
  then obtain c r where c: "x = NDArray c" "reduce_axis0 min c = Inr r" "left = NDArray r"
    by (cases x) (auto simp: min_axis0_def bind_eq_Inr)
  from assms(2) x(1) c(1) obtain r' where r': "reduce_axis0 max c = Inr r'" "right = NDArray r'"
    by (auto simp: ExodusIIDataset_load_domain_edge_def max_axis0_def bind_eq_Inr)
  define lows where
    "lows = map (\<lambda>k. fold min (tl (column c k)) (hd (column c k))) [0..<prod_list (tl (shape c))]"
  define highs where
    "highs = map (\<lambda>k. fold max (tl (column c k)) (hd (column c k))) [0..<prod_list (tl (shape c))]"
  from c(2) obtain n sh where sh: "shape c = n # sh" "0 < n" and r: "r = Ndarray sh lows"
    by (auto simp: reduce_axis0_Inr lows_def)
  from r'(1) sh(1) have r'': "r' = Ndarray sh highs"
    by (auto simp: reduce_axis0_Inr highs_def)
  have nonempty: "column c d \<noteq> []" for d
    using sh by (simp flip: length_greater_0_conv)
  have len: "length lows = prod_list sh" "length highs = prod_list sh"
    using sh by (simp_all add: lows_def highs_def)
  have each: "lows ! d = Min (set (column c d)) \<and> highs ! d = Max (set (column c d))
      \<and> lows ! d \<le> highs ! d" if "d < prod_list sh" for d
    using that sh nonempty [of d]
    by (simp add: lows_def highs_def fold_min_Min fold_max_Max)
  show ?thesis
    using x(1) c(1,3) r'(2) sh r r'' len each by blast
qed

text \<open>
  C4: after a successful parse the coordinate table has at least one row; entry \<open>d\<close> of
  the left edge is the least and entry \<open>d\<close> of the right edge the greatest cell of
  column \<open>d\<close> of the table, nothing added or taken off, and the left entry is at most the
  right one. (Cells are linearly ordered, as floating-point numbers other than NaN are.)
\<close>

theorem domain_edges_are_column_extrema:
  assumes "ExodusIIDataset_parse_parameter_file env self = Inr s"
  shows "\<exists>c n sh lows highs.
     parameters s ''coordinates'' = Some (NDArray c) \<and> shape c = n # sh \<and> 0 < n
     \<and> domain_left_edge s = NDArray (Ndarray sh lows)
     \<and> domain_right_edge s = NDArray (Ndarray sh highs)
     \<and> length lows = prod_list sh \<and> length highs = prod_list sh
     \<and> (\<forall>d < prod_list sh.
           lows ! d = Min (set (column c d)) \<and> highs ! d = Max (set (column c d))
           \<and> lows ! d \<le> highs ! d)"
proof -
  from assms obtain s' where s': "parse_lines_101_114 env self = Inr s'"
    and eq: "parameters s = parameters s'" "domain_left_edge s = domain_left_edge s'"
      "domain_right_edge s = domain_right_edge s'"
    by (rule parse_parameter_file_Inr)
  show ?thesis
    using load_domain_edges [OF parse_edges [OF s']] eq by simp
qed

text \<open>The bounding box of the four nodes of \<^verbatim>\<open>mesh.e\<close>.\<close>

theorem domain_edges_are_column_extrema_witness:
  "\<exists>s lows highs.
     ExodusIIDataset_parse_parameter_file example_env (example_dataset ''mesh.e'') = Inr s
     \<and> domain_left_edge s = NDArray (Ndarray [2] lows)
     \<and> domain_right_edge s = NDArray (Ndarray [2] highs)
     \<and> lows ! 0 = 0 \<and> highs ! 0 = 3 \<and> lows ! 1 = 0 \<and> highs ! 1 = 2"
proof -
  let ?table = "Ndarray [4, 2] [0, 0, 3, 0, 3, 2, 0, 2 :: int]"
  have "case ExodusIIDataset_parse_parameter_file example_env (example_dataset ''mesh.e'') of
          Inl e \<Rightarrow> False
        | Inr s \<Rightarrow> parameters s ''coordinates'' = Some (NDArray ?table)"
    by code_simp
  then obtain s where
    s: "ExodusIIDataset_parse_parameter_file example_env (example_dataset ''mesh.e'') = Inr s"
      "parameters s ''coordinates'' = Some (NDArray ?table)"
    by (auto split: sum.splits)
  from domain_edges_are_column_extrema [OF s(1)] obtain c n sh lows highs where
    e: "parameters s ''coordinates'' = Some (NDArray c)" "shape c = n # sh"
      "domain_left_edge s = NDArray (Ndarray sh lows)"
      "domain_right_edge s = NDArray (Ndarray sh highs)"
      "\<forall>d < prod_list sh.
         lows ! d = Min (set (column c d)) \<and> highs ! d = Max (set (column c d))
         \<and> lows ! d \<le> highs ! d"
    by blast
  have c: "c = ?table" and sh: "sh = [2]"
    using e(1,2) s(2) by auto
  have "column ?table 0 = [0, 3, 3, 0]" "column ?table 1 = [0, 0, 2, 2]"
    by (simp_all add: column_def upt_conv_Cons)
  then have "lows ! 0 = 0 \<and> highs ! 0 = 3 \<and> lows ! 1 = 0 \<and> highs ! 1 = 2"
    using e(5) [rule_format, of 0] e(5) [rule_format, of 1] c sh by simp
  then show ?thesis
    using s(1) e(3,4) sh by blast
qed

section \<open>The Exodus II frontend: coordinates\<close>

text \<open>
  C5, as it stands, fails: the dimensionality is confined to 2 and 3 only on the path that
  reads \<^verbatim>\<open>coordx\<close>, \<^verbatim>\<open>coordy\<close>, \<^verbatim>\<open>coordz\<close>. The file \<^verbatim>\<open>line.e\<close>, a mesh on a
  line with the combined \<^verbatim>\<open>coord\<close> variable, is parsed without an error and has the
  dimensionality 1.
\<close>

theorem combined_coord_dimensionality_one:
  "map_sum id dimensionality
     (ExodusIIDataset_parse_parameter_file example_env (example_dataset ''line.e'')) = Inr 1"
  by code_simp

lemma transpose_shape [simp]: "shape (transpose_nd a) = rev (shape a)"
  by (simp add: transpose_nd_def)

text \<open>The columns of a transposed matrix are the rows of the matrix.\<close>

lemma take_drop_nth:
  "j + n \<le> length xs \<Longrightarrow> take n (drop j xs) = map (\<lambda>i. xs ! (j + i)) [0..<n]"
  by (rule nth_equalityI) simp_all

lemma transpose_column:
  assumes "shape b = [n, m]" "k < n" "k * m + m \<le> length (cells b)"
  shows "column (transpose_nd b) k = take m (drop (k * m) (cells b))"
proof -
  have cell: "cells (transpose_nd b) ! (i * n + k) = cells b ! (k * m + i)" if "i < m" for i
  proof -
    have "(i + 1) * n \<le> m * n"
      using that by (intro mult_le_mono1) simp
    then have "i * n + k < n * m"
      using assms(2) by (simp add: mult.commute)
    then show ?thesis
      using assms(1,2) by (simp add: transpose_2d)
  qed
  have "column (transpose_nd b) k = map (\<lambda>i. cells b ! (k * m + i)) [0..<m]"
    using assms(1) cell by (simp add: column_def)
  then show ?thesis
    using assms(3) by (simp add: take_drop_nth)
qed

text \<open>Stacking the rows of a well-formed matrix gives the matrix again.\<close>

lemma concat_rows:
  "concat (map (\<lambda>i. take m (drop (i * m) xs)) [0..<n]) = take (n * m) xs"
proof (induction n)
  case 0
  show ?case by simp
next
  case (Suc n)
  have "take (Suc n * m) xs = take (n * m + m) xs"
    by (simp add: add.commute)
  also have "\<dots> = take (n * m) xs @ take m (drop (n * m) xs)"
    by (rule take_add)
  finally show ?case
    using Suc by simp
qed

lemma np_array_items:
  assumes "shape a = [n, m]" "0 < n"
  shows "np_array (map (item a) [0..<n]) = Inr (Ndarray [n, m] (take (n * m) (cells a)))"
proof -
  have "[0..<n] = 0 # [1..<n]"
    using assms(2) by (simp add: upt_conv_Cons)
  then have "np_array (map (item a) [0..<n])
      = Inr (Ndarray [n, m] (concat (map cells (map (item a) [0..<n]))))"
    using assms by (simp add: np_array_def list_all_iff)
  moreover have "concat (map cells (map (item a) [0..<n])) = take (n * m) (cells a)"
    using assms(1) concat_rows [of m "cells a" n] by (simp add: item_def comp_def)
  ultimately show ?thesis
    by simp
qed

lemma load_coordinates_combined:
  assumes "ExodusIIDataset_load_coordinates s = Inr c"
    and "parameters s ''coord'' = Some (NDArray a)" "shape a = [r, n]" "0 < r"
  shows "shape c = [n, r]"
    and "wf_ndarray a \<Longrightarrow> k < r \<Longrightarrow> column c k = cells (item a k)"
proof -
  have c: "c = transpose_nd (Ndarray [r, n] (take (r * n) (cells a)))"
    using assms np_array_items [OF assms(3,4)]
    by (auto simp: ExodusIIDataset_load_coordinates_def ndarray_iter_def bind_eq_Inr)
  show "shape c = [n, r]"
    by (simp add: c)
  show "column c k = cells (item a k)" if "wf_ndarray a" "k < r"
  proof -
    have len: "length (cells a) = r * n"
      using that(1) assms(3) by (simp add: wf_ndarray_def)
    have "(k + 1) * n \<le> r * n"
      using that(2) by (intro mult_le_mono1) simp
    then have "k * n + n \<le> length (cells a)"
      using len by simp
    then show ?thesis
      using that(2) len assms(3)
        transpose_column [of "Ndarray [r, n] (take (r * n) (cells a))" r n k]
      by (simp add: c item_def)
  qed
qed

lemma load_coordinates_separate:
  assumes "ExodusIIDataset_load_coordinates s = Inr c"
    and "parameters s ''coord'' = None"
  shows "dimensionality s = 2 \<or> dimensionality s = 3"
    and "\<exists>x y. parameters s ''coordx'' = Some (NDArray x)
           \<and> parameters s ''coordy'' = Some (NDArray y) \<and> shape y = shape x
           \<and> (dimensionality s = 2 \<longrightarrow>
                c = transpose_nd (Ndarray (2 # shape x) (cells x @ cells y)))
           \<and> (dimensionality s = 3 \<longrightarrow>
                (\<exists>z. parameters s ''coordz'' = Some (NDArray z) \<and> shape z = shape x
                   \<and> c = transpose_nd (Ndarray (3 # shape x) (cells x @ cells y @ cells z))))"
  using assms
  by (auto simp: ExodusIIDataset_load_coordinates_def bind_eq_Inr np_array_def
      eval_nat_numeral split: if_splits)

text \<open>The table of two or three stacked columns, transposed.\<close>

lemma two_columns:
  assumes "length xs = n" "length ys = n"
  shows "column (transpose_nd (Ndarray [2, n] (xs @ ys))) 0 = xs"
    and "column (transpose_nd (Ndarray [2, n] (xs @ ys))) 1 = ys"
  using assms transpose_column [of "Ndarray [2, n] (xs @ ys)" 2 n 0]
    transpose_column [of "Ndarray [2, n] (xs @ ys)" 2 n 1]
  by simp_all

lemma three_columns:
  assumes "length xs = n" "length ys = n" "length zs = n"
  shows "column (transpose_nd (Ndarray [3, n] (xs @ ys @ zs))) 0 = xs"
    and "column (transpose_nd (Ndarray [3, n] (xs @ ys @ zs))) 1 = ys"
    and "column (transpose_nd (Ndarray [3, n] (xs @ ys @ zs))) 2 = zs"
  using assms transpose_column [of "Ndarray [3, n] (xs @ ys @ zs)" 3 n 0]
    transpose_column [of "Ndarray [3, n] (xs @ ys @ zs)" 3 n 1]
    transpose_column [of "Ndarray [3, n] (xs @ ys @ zs)" 3 n 2]
  by simp_all

lemma len_of_first_row:
  assumes "shape c = [N, r]" "0 < N"
  shows "bind (ndarray_getitem c 0) ndarray_len = Inr r"
  using assms by (simp add: ndarray_getitem_def py_index_def ndarray_len_def)

text \<open>
  C5, amended: after a successful parse the dimensionality is the length of the first axis
  of \<^verbatim>\<open>coor_names\<close>. Without a \<^verbatim>\<open>coord\<close> variable it is 2 or 3, and the
  one-dimensional variables \<^verbatim>\<open>coordx\<close>, \<^verbatim>\<open>coordy\<close> (and \<^verbatim>\<open>coordz\<close>) of \<open>N\<close> nodes
  become a table of shape \<open>(N, dimensionality)\<close>, whose row 0 has \<open>dimensionality\<close>
  entries and whose columns 0, 1 (and 2) are \<^verbatim>\<open>coordx\<close>, \<^verbatim>\<open>coordy\<close> (and
  \<^verbatim>\<open>coordz\<close>). With a \<^verbatim>\<open>coord\<close> variable of \<open>r\<close> rows and \<open>N\<close> columns the table has
  the shape \<open>(N, r)\<close>, its row 0 has \<open>r\<close> entries and its column \<open>k\<close> is the row \<open>k\<close>
  of \<^verbatim>\<open>coord\<close>, whatever the dimensionality is: in this case neither
  \<open>r = dimensionality\<close> nor a dimensionality of 2 or 3 is checked.
\<close>

theorem coordinates_table:
  assumes "ExodusIIDataset_parse_parameter_file env self = Inr s"
  shows "\<exists>cn d c.
     parameters s ''coor_names'' = Some cn \<and> shape0 cn = Inr d \<and> dimensionality s = int d
     \<and> (\<exists>a sh. cn = NDArray a \<and> shape a = d # sh)
     \<and> parameters s ''coordinates'' = Some (NDArray c)
     \<and> (parameters s ''coord'' = None \<longrightarrow>
          (d = 2 \<or> d = 3)
          \<and> (\<exists>x y. parameters s ''coordx'' = Some (NDArray x)
                \<and> parameters s ''coordy'' = Some (NDArray y)
                \<and> shape y = shape x
                \<and> (\<forall>N. shape x = [N] \<longrightarrow>
                      shape c = [N, d]
                      \<and> (0 < N \<longrightarrow> bind (ndarray_getitem c 0) ndarray_len = Inr d))
                \<and> (d = 2 \<longrightarrow>
                      (\<forall>N. shape x = [N] \<and> wf_ndarray x \<and> wf_ndarray y \<longrightarrow>
                         column c 0 = cells x \<and> column c 1 = cells y))
                \<and> (d = 3 \<longrightarrow>
                      (\<exists>z. parameters s ''coordz'' = Some (NDArray z) \<and> shape z = shape x
                         \<and> (\<forall>N. shape x = [N] \<and> wf_ndarray x \<and> wf_ndarray y \<and> wf_ndarray z
                               \<longrightarrow>
                               column c 0 = cells x \<and> column c 1 = cells y
                               \<and> column c 2 = cells z)))))
     \<and> (\<forall>a r N. parameters s ''coord'' = Some (NDArray a) \<and> shape a = [r, N] \<and> 0 < r \<longrightarrow>
          shape c = [N, r]
          \<and> (0 < N \<longrightarrow> bind (ndarray_getitem c 0) ndarray_len = Inr r)
          \<and> (wf_ndarray a \<longrightarrow> (\<forall>k<r. column c k = cells (item a k))))"
proof -
  from assms obtain s' where s': "parse_lines_101_114 env self = Inr s'"
    and eq: "parameters s = parameters s'" "dimensionality s = dimensionality s'"
    by (rule parse_parameter_file_Inr)
  from parse_dimensionality [OF s'] obtain cn d where
    d: "parameters s' ''coor_names'' = Some cn" "shape0 cn = Inr d" "dimensionality s' = int d"
    by blast
  from parse_coordinates [OF s'] obtain c where
    c: "ExodusIIDataset_load_coordinates s' = Inr c"
      "parameters s' ''coordinates'' = Some (NDArray c)"
    by blast
  have separate: "(d = 2 \<or> d = 3)
      \<and> (\<exists>x y. parameters s' ''coordx'' = Some (NDArray x)
            \<and> parameters s' ''coordy'' = Some (NDArray y)
            \<and> shape y = shape x
            \<and> (\<forall>N. shape x = [N] \<longrightarrow>
                  shape c = [N, d]
                  \<and> (0 < N \<longrightarrow> bind (ndarray_getitem c 0) ndarray_len = Inr d))
            \<and> (d = 2 \<longrightarrow>
                  (\<forall>N. shape x = [N] \<and> wf_ndarray x \<and> wf_ndarray y \<longrightarrow>
                     column c 0 = cells x \<and> column c 1 = cells y))
            \<and> (d = 3 \<longrightarrow>
                  (\<exists>z. parameters s' ''coordz'' = Some (NDArray z) \<and> shape z = shape x
                     \<and> (\<forall>N. shape x = [N] \<and> wf_ndarray x \<and> wf_ndarray y \<and> wf_ndarray z
                           \<longrightarrow>
                           column c 0 = cells x \<and> column c 1 = cells y
                           \<and> column c 2 = cells z))))"
    if absent: "parameters s' ''coord'' = None"
  proof -
    have dim: "d = 2 \<or> d = 3"
      using load_coordinates_separate(1) [OF c(1) absent] d(3) by auto
    from load_coordinates_separate(2) [OF c(1) absent] obtain x y where
      x: "parameters s' ''coordx'' = Some (NDArray x)"
      and y: "parameters s' ''coordy'' = Some (NDArray y)" "shape y = shape x"
      and two': "dimensionality s' = 2 \<longrightarrow>
        c = transpose_nd (Ndarray (2 # shape x) (cells x @ cells y))"
      and three': "dimensionality s' = 3 \<longrightarrow>
        (\<exists>z. parameters s' ''coordz'' = Some (NDArray z) \<and> shape z = shape x
           \<and> c = transpose_nd (Ndarray (3 # shape x) (cells x @ cells y @ cells z)))"
      by blast
    have two: "d = 2 \<longrightarrow> c = transpose_nd (Ndarray (2 # shape x) (cells x @ cells y))"
      using two' d(3) by simp
    have three: "d = 3 \<longrightarrow>
        (\<exists>z. parameters s' ''coordz'' = Some (NDArray z) \<and> shape z = shape x
           \<and> c = transpose_nd (Ndarray (3 # shape x) (cells x @ cells y @ cells z)))"
      using three' d(3) by simp
    have sh: "shape c = [N, d] \<and> (0 < N \<longrightarrow> bind (ndarray_getitem c 0) ndarray_len = Inr d)"
      if "shape x = [N]" for N
    proof -
      have "shape c = [N, d]"
      proof (cases "d = 2")
        case True
        then show ?thesis using two that by simp
      next
        case False
        then have "d = 3" using dim by simp
        then show ?thesis using three that by auto
      qed
      then show ?thesis
        using len_of_first_row [of c N d] by simp
    qed
    have plane: "column c 0 = cells x \<and> column c 1 = cells y"
      if "d = 2" "shape x = [N] \<and> wf_ndarray x \<and> wf_ndarray y" for N
    proof -
      have "length (cells x) = N" "length (cells y) = N"
        using that(2) y(2) by (simp_all add: wf_ndarray_def)
      then show ?thesis
        using two that two_columns [of "cells x" N "cells y"] by simp
    qed
    have space: "\<exists>z. parameters s' ''coordz'' = Some (NDArray z) \<and> shape z = shape x
        \<and> (\<forall>N. shape x = [N] \<and> wf_ndarray x \<and> wf_ndarray y \<and> wf_ndarray z \<longrightarrow>
              column c 0 = cells x \<and> column c 1 = cells y \<and> column c 2 = cells z)"
      if "d = 3"
    proof -
      from three that obtain z where
        z: "parameters s' ''coordz'' = Some (NDArray z)" "shape z = shape x"
          "c = transpose_nd (Ndarray (3 # shape x) (cells x @ cells y @ cells z))"
        by blast
      have "column c 0 = cells x \<and> column c 1 = cells y \<and> column c 2 = cells z"
        if w: "shape x = [N] \<and> wf_ndarray x \<and> wf_ndarray y \<and> wf_ndarray z" for N
      proof -
        have "length (cells x) = N" "length (cells y) = N" "length (cells z) = N"
          using w y(2) z(2) by (simp_all add: wf_ndarray_def)
        then show ?thesis
          using z(3) w three_columns [of "cells x" N "cells y" "cells z"] by simp
      qed
      then show ?thesis
        using z(1,2) by blast
    qed
    show ?thesis
      using dim x y sh plane space by blast
  qed
  have combined: "shape c = [N, r]
      \<and> (0 < N \<longrightarrow> bind (ndarray_getitem c 0) ndarray_len = Inr r)
      \<and> (wf_ndarray a \<longrightarrow> (\<forall>k<r. column c k = cells (item a k)))"
    if "parameters s' ''coord'' = Some (NDArray a) \<and> shape a = [r, N] \<and> 0 < r" for a r N
    using that load_coordinates_combined [OF c(1), of a r N] len_of_first_row [of c N r]
    by simp
  have first_axis: "\<exists>a sh. cn = NDArray a \<and> shape a = d # sh"
    using d(2) by (auto simp: shape0_def ndarray_shape0_def split: pyval.splits list.splits)
  show ?thesis
    unfolding eq
    apply (rule exI [of _ cn], rule exI [of _ d], rule exI [of _ c])
    apply (intro conjI)
          apply (rule d(1))
         apply (rule d(2))
        apply (rule d(3))
       apply (rule first_axis)
      apply (rule c(2))
     apply (rule impI, erule separate)
    apply (intro allI impI, erule combined)
    done
qed

text \<open>
  The coordinate tables of \<^verbatim>\<open>mesh.e\<close> (two separate variables), of \<^verbatim>\<open>solid.e\<close> (three
  separate variables) and of \<^verbatim>\<open>line.e\<close> (combined variable).
\<close>

theorem coordinates_table_witness:
  "(\<exists>s c. ExodusIIDataset_parse_parameter_file example_env (example_dataset ''mesh.e'') = Inr s
       \<and> dimensionality s = 2 \<and> parameters s ''coordinates'' = Some (NDArray c)
       \<and> shape c = [4, 2] \<and> bind (ndarray_getitem c 0) ndarray_len = Inr 2
       \<and> column c 0 = [0, 3, 3, 0] \<and> column c 1 = [0, 0, 2, 2])
   \<and> (\<exists>s c. ExodusIIDataset_parse_parameter_file example_env (example_dataset ''solid.e'') = Inr s
       \<and> dimensionality s = 3 \<and> parameters s ''coordinates'' = Some (NDArray c)
       \<and> shape c = [4, 3] \<and> bind (ndarray_getitem c 0) ndarray_len = Inr 3
       \<and> column c 0 = [0, 6, 0, 0] \<and> column c 1 = [0, 0, 7, 0] \<and> column c 2 = [0, 0, 0, 8])
   \<and> (\<exists>s c. ExodusIIDataset_parse_parameter_file example_env (example_dataset ''line.e'') = Inr s
       \<and> parameters s ''coordinates'' = Some (NDArray c)
       \<and> shape c = [3, 1] \<and> bind (ndarray_getitem c 0) ndarray_len = Inr 1
       \<and> column c 0 = [0, 5, 9])"
proof -
  have "case ExodusIIDataset_parse_parameter_file example_env (example_dataset ''mesh.e'') of
          Inl e \<Rightarrow> False
        | Inr s \<Rightarrow> parameters s ''coord'' = None
            \<and> parameters s ''coor_names'' = Some (NDArray (Ndarray [2, 2] [120, 0, 121, 0]))
            \<and> parameters s ''coordx'' = Some (NDArray (Ndarray [4] [0, 3, 3, 0]))
            \<and> parameters s ''coordy'' = Some (NDArray (Ndarray [4] [0, 0, 2, 2]))"
    by code_simp
  then obtain s where
    s: "ExodusIIDataset_parse_parameter_file example_env (example_dataset ''mesh.e'') = Inr s"
      "parameters s ''coord'' = None"
      "parameters s ''coor_names'' = Some (NDArray (Ndarray [2, 2] [120, 0, 121, 0]))"
      "parameters s ''coordx'' = Some (NDArray (Ndarray [4] [0, 3, 3, 0]))"
      "parameters s ''coordy'' = Some (NDArray (Ndarray [4] [0, 0, 2, 2]))"
    by (auto split: sum.splits)
  have wf2: "wf_ndarray (Ndarray [4] [0, 3, 3, 0 :: int])"
    "wf_ndarray (Ndarray [4] [0, 0, 2, 2 :: int])"
    by (simp_all add: wf_ndarray_def)
  from coordinates_table [OF s(1)] s(2,3,4,5) wf2 obtain c where
    c: "dimensionality s = 2" "parameters s ''coordinates'' = Some (NDArray c)"
      "shape c = [4, 2]" "bind (ndarray_getitem c 0) ndarray_len = Inr 2"
      "column c 0 = [0, 3, 3, 0]" "column c 1 = [0, 0, 2, 2]"
    by (auto simp: shape0_def ndarray_shape0_def)
  have "case ExodusIIDataset_parse_parameter_file example_env (example_dataset ''solid.e'') of
          Inl e \<Rightarrow> False
        | Inr s \<Rightarrow> parameters s ''coord'' = None
            \<and> parameters s ''coor_names''
                = Some (NDArray (Ndarray [3, 2] [120, 0, 121, 0, 122, 0]))
            \<and> parameters s ''coordx'' = Some (NDArray (Ndarray [4] [0, 6, 0, 0]))
            \<and> parameters s ''coordy'' = Some (NDArray (Ndarray [4] [0, 0, 7, 0]))
            \<and> parameters s ''coordz'' = Some (NDArray (Ndarray [4] [0, 0, 0, 8]))"
    by code_simp
  then obtain u where
    u: "ExodusIIDataset_parse_parameter_file example_env (example_dataset ''solid.e'') = Inr u"
      "parameters u ''coord'' = None"
      "parameters u ''coor_names'' = Some (NDArray (Ndarray [3, 2] [120, 0, 121, 0, 122, 0]))"
      "parameters u ''coordx'' = Some (NDArray (Ndarray [4] [0, 6, 0, 0]))"
      "parameters u ''coordy'' = Some (NDArray (Ndarray [4] [0, 0, 7, 0]))"
      "parameters u ''coordz'' = Some (NDArray (Ndarray [4] [0, 0, 0, 8]))"
    by (auto split: sum.splits)
  have wf3: "wf_ndarray (Ndarray [4] [0, 6, 0, 0 :: int])"
    "wf_ndarray (Ndarray [4] [0, 0, 7, 0 :: int])"
    "wf_ndarray (Ndarray [4] [0, 0, 0, 8 :: int])"
    by (simp_all add: wf_ndarray_def)
  from coordinates_table [OF u(1)] u(2,3,4,5,6) wf3 obtain c3 where
    c3: "dimensionality u = 3" "parameters u ''coordinates'' = Some (NDArray c3)"
      "shape c3 = [4, 3]" "bind (ndarray_getitem c3 0) ndarray_len = Inr 3"
      "column c3 0 = [0, 6, 0, 0]" "column c3 1 = [0, 0, 7, 0]" "column c3 2 = [0, 0, 0, 8]"
    by (auto simp: shape0_def ndarray_shape0_def)
  have "case ExodusIIDataset_parse_parameter_file example_env (example_dataset ''line.e'') of
          Inl e \<Rightarrow> False
        | Inr s \<Rightarrow> parameters s ''coord'' = Some (NDArray (Ndarray [1, 3] [0, 5, 9]))"
    by code_simp
  then obtain t where
    t: "ExodusIIDataset_parse_parameter_file example_env (example_dataset ''line.e'') = Inr t"
      "parameters t ''coord'' = Some (NDArray (Ndarray [1, 3] [0, 5, 9]))"
    by (auto split: sum.splits)
  from coordinates_table [OF t(1)] obtain c' where
    c': "parameters t ''coordinates'' = Some (NDArray c')"
      "\<forall>a r N. parameters t ''coord'' = Some (NDArray a) \<and> shape a = [r, N] \<and> 0 < r \<longrightarrow>
          shape c' = [N, r]
          \<and> (0 < N \<longrightarrow> bind (ndarray_getitem c' 0) ndarray_len = Inr r)
          \<and> (wf_ndarray a \<longrightarrow> (\<forall>k<r. column c' k = cells (item a k)))"
    by blast
  have "shape c' = [3, 1] \<and> bind (ndarray_getitem c' 0) ndarray_len = Inr 1
      \<and> column c' 0 = [0, 5, 9]"
    using c'(2) [rule_format, of "Ndarray [1, 3] [0, 5, 9]" 1 3] t(2)
    by (simp add: wf_ndarray_def item_def)
  then show ?thesis
    using s(1) c u(1) c3 t(1) c'(1) by blast
qed
section \<open>The Exodus II frontend: the required variable \<^verbatim>\<open>time_whole\<close>\<close>

text \<open>
  C10, as it stands, fails: the global variables become parameters under their own names
  before line 123 runs. The file \<^verbatim>\<open>renamed.e\<close> has no variable \<^verbatim>\<open>time_whole\<close> and a
  global variable of that name; it is parsed without an error, and \<^verbatim>\<open>num_steps\<close> is
  the number of values of that global variable.
\<close>

theorem global_variable_named_time_whole:
  "map_of renamed_variables ''time_whole'' = None
   \<and> map_sum id num_steps
       (ExodusIIDataset_parse_parameter_file example_env (example_dataset ''renamed.e''))
     = Inr 2"
  by code_simp

lemma read_glo_var_other:
  assumes "ExodusIIDataset_read_glo_var env s1 = Inr s2"
    and "\<forall>names. decoded_names env (parameters s1) ''name_glo_var'' = Inr names \<longrightarrow>
           key \<notin> set names"
  shows "parameters s2 key = parameters s1 key"
proof -
  from assms(1) obtain names where names: "ExodusIIDataset_get_glo_names env s1 = Inr names"
    by (auto simp: ExodusIIDataset_read_glo_var_def bind_eq_Inr)
  have notin: "key \<notin> set names"
    using names assms(2)
    by (auto simp: ExodusIIDataset_get_glo_names_def except_key_or_type_def
        split: sum.splits if_splits)
  show ?thesis
  proof (cases "names = []")
    case True
    then show ?thesis
      using assms(1) names by (simp add: ExodusIIDataset_read_glo_var_def)
  next
    case False
    then obtain vs where "parameters s2 = set_parameters (zip names vs) (parameters s1)"
      using assms(1) names by (auto simp: ExodusIIDataset_read_glo_var_def bind_eq_Inr)
    moreover have "key \<notin> fst ` set (zip names vs)"
      using notin by (auto dest: set_zip_leftD)
    ultimately show ?thesis
      by (simp add: set_parameters_other)
  qed
qed

lemma parse_keeps_other_parameters:
  assumes "parse_lines_101_114 env self = Inr s"
    and "NetCDF4FileHandler env (parameter_filename self) = Inr variables"
    and "key \<notin> {''info_records'', ''num_meshes'', ''elem_names'', ''nod_names'',
           ''coordinates'', ''connectivity''}"
    and "\<forall>names. decoded_names env (parameters self ++ (\<lambda>k. map_option NDArray (variables k)))
           ''name_glo_var'' = Inr names \<longrightarrow> key \<notin> set names"
  shows "parameters s key = (parameters self ++ (\<lambda>k. map_option NDArray (variables k))) key"
proof -
  define s1 where
    "s1 = self\<lparr>parameters := parameters self ++ (\<lambda>k. map_option NDArray (variables k))\<rparr>"
  from assms(1,2) obtain s2 where s2: "ExodusIIDataset_read_glo_var env s1 = Inr s2"
    and later: "parameters s key = parameters s2 key"
    using assms(3)
    by (auto simp: parse_lines_101_114_def bind_eq_Inr Let_def set_parameter_def
        ExodusIIDataset_load_variables_def s1_def)
  have "parameters s2 key = parameters s1 key"
    using s2 assms(4) by (intro read_glo_var_other) (simp_all add: s1_def)
  then show ?thesis
    using later by (simp add: s1_def)
qed

text \<open>
  C10, amended: let the file open and have no variable \<^verbatim>\<open>time_whole\<close>, let the dataset
  have no such parameter beforehand, and let no global variable be named
  \<^verbatim>\<open>time_whole\<close>. Then parsing fails. When lines 101-114 succeed, it fails in line 123
  with \<^verbatim>\<open>KeyError\<close>, after \<^verbatim>\<open>_get_current_time\<close> has fallen back to \<open>0.0\<close>.
\<close>

theorem missing_time_whole_fails:
  assumes "NetCDF4FileHandler env (parameter_filename self) = Inr variables"
    and "variables ''time_whole'' = None"
    and "parameters self ''time_whole'' = None"
    and "\<forall>names. decoded_names env (parameters self ++ (\<lambda>k. map_option NDArray (variables k)))
           ''name_glo_var'' = Inr names \<longrightarrow> ''time_whole'' \<notin> set names"
  shows "(\<exists>e. ExodusIIDataset_parse_parameter_file env self = Inl e)
     \<and> (\<forall>s. parse_lines_101_114 env self = Inr s \<longrightarrow>
           ExodusIIDataset_parse_parameter_file env self = Inl KeyError
           \<and> current_time s = PyFloat 0)"
proof -
  have absent: "parameters s ''time_whole'' = None"
    if "parse_lines_101_114 env self = Inr s" for s
    using parse_keeps_other_parameters [OF that assms(1) _ assms(4)] assms(2,3)
    by (simp add: map_add_def)
  have key_error: "ExodusIIDataset_parse_parameter_file env self = Inl KeyError
      \<and> current_time s = PyFloat 0"
    if s: "parse_lines_101_114 env self = Inr s" for s
  proof -
    have "ExodusIIDataset_get_current_time s = Inr (PyFloat 0)"
      using absent [OF s]
      by (simp add: ExodusIIDataset_get_current_time_def except_key_or_type_def
          key_or_type_error_def dict_getitem_def)
    then have "current_time s = PyFloat 0"
      using parse_current_time [OF s] by simp
    moreover have "ExodusIIDataset_parse_parameter_file env self = Inl KeyError"
      using s absent [OF s]
      by (simp add: ExodusIIDataset_parse_parameter_file_def Let_def parse_lines_115_122_def
          dict_getitem_def)
    ultimately show ?thesis by simp
  qed
  have "\<exists>e. ExodusIIDataset_parse_parameter_file env self = Inl e"
  proof (cases "parse_lines_101_114 env self")
    case (Inl e)
    then show ?thesis
      by (simp add: ExodusIIDataset_parse_parameter_file_def)
  next
    case (Inr s)
    then show ?thesis
      using key_error by blast
  qed
  then show ?thesis
    using key_error by blast
qed

text \<open>The file \<^verbatim>\<open>untimed.e\<close>: everything but the last line of the parser succeeds.\<close>

theorem missing_time_whole_fails_witness:
  "ExodusIIDataset_parse_parameter_file example_env (example_dataset ''untimed.e'')
     = Inl KeyError
   \<and> (\<exists>s. parse_lines_101_114 example_env (example_dataset ''untimed.e'') = Inr s
        \<and> current_time s = PyFloat 0)"
proof -
  let ?self = "example_dataset ''untimed.e''"
  have opened: "NetCDF4FileHandler example_env (parameter_filename ?self)
      = Inr (map_of untimed_variables)"
    by (simp add: example_env_def example_netcdf_def example_dataset_def)
  have no_variable: "map_of untimed_variables ''time_whole'' = None"
    by code_simp
  have no_parameter: "parameters ?self ''time_whole'' = None"
    by (simp add: example_dataset_def)
  have "decoded_names example_env
      (parameters ?self ++ (\<lambda>k. map_option NDArray (map_of untimed_variables k)))
      ''name_glo_var'' = Inr [''g'']"
    by code_simp
  then have names: "\<forall>names. decoded_names example_env
      (parameters ?self ++ (\<lambda>k. map_option NDArray (map_of untimed_variables k)))
      ''name_glo_var'' = Inr names \<longrightarrow> ''time_whole'' \<notin> set names"
    by simp
  have "case parse_lines_101_114 example_env ?self of Inl e \<Rightarrow> False | Inr s \<Rightarrow> True"
    by code_simp
  then obtain s where s: "parse_lines_101_114 example_env ?self = Inr s"
    by (auto split: sum.splits)
  show ?thesis
    using missing_time_whole_fails [OF opened no_variable no_parameter names] s by blast
qed

section \<open>The Exodus II frontend: node fields\<close>

text \<open>Casting keeps the shape; the last time step of a matrix, taken at a list of
  indices.\<close>

lemma astype_simps [simp]:
  "shape (astype f a) = shape a" "cells (astype f a) = map f (cells a)"
  by (simp_all add: astype_def)

lemma wf_astype [simp]: "wf_ndarray (astype f a) = wf_ndarray a"
  by (simp add: wf_ndarray_def)

lemma py_index_Inr: "py_index n i = Inr q \<Longrightarrow> q < n"
  by (auto simp: py_index_def Let_def split: if_splits)

lemma py_index_nonneg: "py_index n i = Inr q \<Longrightarrow> 0 \<le> i \<Longrightarrow> q = nat i"
  by (auto simp: py_index_def Let_def split: if_splits)

lemma py_index_neg: "py_index n i = Inr q \<Longrightarrow> i < 0 \<Longrightarrow> int q = int n + i"
  by (auto simp: py_index_def Let_def split: if_splits)

lemma take_one_drop: "j < length xs \<Longrightarrow> take (Suc 0) (drop j xs) = [xs ! j]"
  by (simp flip: Cons_nth_drop_Suc)

lemma concat_singletons:
  assumes "\<forall>p < length xs. cells (xs ! p) = [f p]"
  shows "concat (map cells xs) = map f [0..<length xs]"
  using assms
proof (induction xs arbitrary: f)
  case Nil
  then show ?case by simp
next
  case (Cons x xs)
  have "concat (map cells xs) = map (\<lambda>p. f (Suc p)) [0..<length xs]"
    using Cons.prems by (intro Cons.IH) auto
  moreover have "cells x = [f 0]"
    using Cons.prems by auto
  moreover have "[Suc 0..<Suc (length xs)] = map Suc [0..<length xs]"
    by (simp only: map_Suc_upt)
  ultimately show ?case
    by (simp add: upt_conv_Cons del: upt_Suc)
qed

lemma last_step_take_2d:
  assumes take: "last_step_take a idx_shape idx = Inr v"
    and shape: "shape a = [T, N]" and wf: "wf_ndarray a"
  shows "0 < T" "shape v = idx_shape" "length (cells v) = length idx"
    "\<forall>p < length idx. \<exists>q. py_index N (idx ! p) = Inr q
        \<and> cells v ! p = cells a ! ((T - 1) * N + q)"
proof -
  from take obtain row picked where row: "last_step a = Inr row"
    and picked: "mapM (ndarray_getitem row) idx = Inr picked"
    and v: "v = Ndarray (idx_shape @ tl (shape row)) (concat (map cells picked))"
    by (auto simp: last_step_take_def bind_eq_Inr)
  have pred: "nat (int T - 1) = T - 1"
    by linarith
  from row shape have T: "0 < T" and row_eq: "row = item a (T - 1)"
    by (auto simp: last_step_def ndarray_getitem_def py_index_def bind_eq_Inr Let_def pred
        split: if_splits)
  have row_shape: "shape row = [N]"
    using row_eq shape by simp
  have "(T - 1) * N + N = T * N"
    using T by (simp add: algebra_simps flip: mult_Suc)
  then have row_len: "length (cells row) = N"
    and row_nth: "\<And>q. q < N \<Longrightarrow> cells row ! q = cells a ! ((T - 1) * N + q)"
    using wf shape by (simp_all add: row_eq item_def wf_ndarray_def)
  have "\<forall>p. \<exists>j. p < length idx \<longrightarrow>
      py_index N (idx ! p) = Inr j \<and> picked ! p = item row j"
  proof
    fix p
    show "\<exists>j. p < length idx \<longrightarrow> py_index N (idx ! p) = Inr j \<and> picked ! p = item row j"
    proof (cases "p < length idx")
      case True
      with picked have "ndarray_getitem row (idx ! p) = Inr (picked ! p)"
        by (simp add: mapM_eq_Inr)
      then show ?thesis
        using row_shape by (auto simp: ndarray_getitem_def bind_eq_Inr)
    next
      case False
      then show ?thesis by simp
    qed
  qed
  then have "\<exists>q. \<forall>p. p < length idx \<longrightarrow>
      py_index N (idx ! p) = Inr (q p) \<and> picked ! p = item row (q p)"
    by (rule choice)
  then obtain q where
    each: "\<And>p. p < length idx \<Longrightarrow>
      py_index N (idx ! p) = Inr (q p) \<and> picked ! p = item row (q p)"
    by blast
  have len: "length picked = length idx"
    using picked by (simp add: mapM_eq_Inr)
  have cell: "cells (picked ! p) = [cells a ! ((T - 1) * N + q p)]" if "p < length idx" for p
  proof -
    have "q p < N"
      using each [OF that] by (auto dest: py_index_Inr)
    then show ?thesis
      using each [OF that] row_shape row_len row_nth [of "q p"]
      by (simp add: item_def take_one_drop)
  qed
  have cat: "concat (map cells picked) = map (\<lambda>p. cells a ! ((T - 1) * N + q p)) [0..<length idx]"
    using concat_singletons [of picked "\<lambda>p. cells a ! ((T - 1) * N + q p)"] cell len by simp
  show "0 < T"
    by (rule T)
  show "shape v = idx_shape"
    using v row_shape by simp
  show "length (cells v) = length idx"
    using v cat by simp
  show "\<forall>p < length idx. \<exists>q. py_index N (idx ! p) = Inr q
        \<and> cells v ! p = cells a ! ((T - 1) * N + q)"
    using v cat each by auto
qed

lemma nod_loop_other:
  assumes "nod_loop env params ci js vals = Inr vals'"
    and "name \<notin> snd ` set js"
  shows "vals' (''gas'', name) = vals (''gas'', name)"
  using assms
proof (induction js arbitrary: vals)
  case Nil
  then show ?case by simp
next
  case (Cons jn js)
  obtain j n where jn: "jn = (j, n)" by (cases jn)
  from Cons.prems(1) obtain v where
    rest: "nod_loop env params ci js (vals((''gas'', n) \<mapsto> v)) = Inr vals'"
    by (auto simp: jn bind_eq_Inr split: if_splits)
  have "name \<notin> snd ` set js" "name \<noteq> n"
    using Cons.prems(2) jn by auto
  then show ?case
    using Cons.IH [OF rest] by simp
qed

lemma nod_loop_Inr:
  assumes "nod_loop env params ci js vals = Inr vals'"
    and "k < length js"
    and "\<forall>k'. k < k' \<and> k' < length js \<longrightarrow> snd (js ! k') \<noteq> snd (js ! k)"
  shows "\<exists>a idx_shape idx v.
     params (''vals_nod_var'' @ str_of_nat (fst (js ! k) + 1)) = Some (NDArray a)
     \<and> minus_one env ci = Inr (idx_shape, idx)
     \<and> last_step_take (astype (f8 env) a) idx_shape idx = Inr v
     \<and> vals' (''gas'', snd (js ! k)) = Some v"
  using assms
proof (induction js arbitrary: vals k)
  case Nil
  then show ?case by simp
next
  case (Cons jn js)
  obtain j n where jn: "jn = (j, n)" by (cases jn)
  from Cons.prems(1) obtain a idx_shape idx v where
    step: "params (''vals_nod_var'' @ str_of_nat (j + 1)) = Some (NDArray a)"
      "minus_one env ci = Inr (idx_shape, idx)"
      "last_step_take (astype (f8 env) a) idx_shape idx = Inr v"
    and rest: "nod_loop env params ci js (vals((''gas'', n) \<mapsto> v)) = Inr vals'"
    by (auto simp: jn bind_eq_Inr split: if_splits)
  show ?case
  proof (cases k)
    case 0
    have "n \<notin> snd ` set js"
    proof
      assume "n \<in> snd ` set js"
      then obtain i where "i < length js" "snd (js ! i) = n"
        by (auto simp: in_set_conv_nth)
      then show False
        using Cons.prems(3) [rule_format, of "Suc i"] 0 jn by simp
    qed
    then have "vals' (''gas'', n) = Some v"
      using nod_loop_other [OF rest] by simp
    then show ?thesis
      using 0 jn step by simp
  next
    case (Suc k')
    have "\<exists>a idx_shape idx v.
        params (''vals_nod_var'' @ str_of_nat (fst (js ! k') + 1)) = Some (NDArray a)
        \<and> minus_one env ci = Inr (idx_shape, idx)
        \<and> last_step_take (astype (f8 env) a) idx_shape idx = Inr v
        \<and> vals' (''gas'', snd (js ! k')) = Some v"
    proof (rule Cons.IH [OF rest])
      show "k' < length js" using Cons.prems(2) Suc by simp
      show "\<forall>i. k' < i \<and> i < length js \<longrightarrow> snd (js ! i) \<noteq> snd (js ! k')"
      proof (intro allI impI)
        fix i assume "k' < i \<and> i < length js"
        then show "snd (js ! i) \<noteq> snd (js ! k')"
          using Cons.prems(3) [rule_format, of "Suc i"] Suc by simp
      qed
    qed
    then show ?thesis
      using Suc by simp
  qed
qed

lemma load_mesh_data_Inr:
  assumes "load_mesh_data env params i = Inr vals"
    and "params ''connectivity'' = Some (PyList (map NDArray conn))"
    and "params ''nod_names'' = Some (PyList (map PyStr names))"
    and "i < length conn" "j < length names"
    and "\<forall>j'. j < j' \<and> j' < length names \<longrightarrow> names ! j' \<noteq> names ! j"
  shows "\<exists>raw v.
     params (''vals_nod_var'' @ str_of_nat (j + 1)) = Some (NDArray raw)
     \<and> last_step_take (astype (f8 env) raw) (shape (conn ! i))
           (map (\<lambda>x. int_of env x - 1) (cells (conn ! i))) = Inr v
     \<and> vals (''gas'', PyStr (names ! j)) = Some v"
proof -
  let ?js = "enumerate 0 (map PyStr names)"
  have ci: "subscript_int (PyList (map NDArray conn)) (int i) = Inr (NDArray (conn ! i))"
    using assms(4) by (simp add: subscript_int_def py_index_def)
  from assms(1,2,3) ci obtain vals0 where
    loop: "nod_loop env params (NDArray (conn ! i)) ?js vals0 = Inr vals"
    by (auto simp: load_mesh_data_def bind_eq_Inr iterate_def)
  have "\<exists>a idx_shape idx v.
     params (''vals_nod_var'' @ str_of_nat (fst (?js ! j) + 1)) = Some (NDArray a)
     \<and> minus_one env (NDArray (conn ! i)) = Inr (idx_shape, idx)
     \<and> last_step_take (astype (f8 env) a) idx_shape idx = Inr v
     \<and> vals (''gas'', snd (?js ! j)) = Some v"
    using nod_loop_Inr [OF loop, of j] assms(5,6) by (simp add: nth_enumerate_eq)
  then show ?thesis
    using assms(5) by (auto simp: nth_enumerate_eq minus_one_def)
qed

lemma load_data_Inr:
  assumes "ExodusIIDataset_load_data env s = Inr dat"
    and "parameters s ''num_meshes'' = Some (PyInt (int n))"
  shows "length dat = n" "\<forall>i<n. load_mesh_data env (parameters s) i = Inr (dat ! i)"
  using assms
  by (auto simp: ExodusIIDataset_load_data_def py_range_def mapM_eq_Inr bind_eq_Inr)

text \<open>
  C3, as it stands, fails in its last part: the loader stores the connectivity entries as
  the file has them and does not check that they are at least 1. \<^verbatim>\<open>zero.e\<close> is parsed
  without an error; the entry 0 at the first position of its block is stored, and the node
  field there is read at the index \<open>-1\<close>, which is the last of the four nodes (the value
  40 of the last time step).
\<close>

theorem connectivity_entry_zero_is_stored:
  "map_sum id (parameter ''connectivity'')
       (ExodusIIDataset_parse_parameter_file example_env (example_dataset ''zero.e''))
     = Inr (Some (PyList [NDArray (Ndarray [1, 4] [0, 2, 3, 4])]))
   \<and> map_sum id (gas_field ''u'')
       (ExodusIIDataset_parse_parameter_file example_env (example_dataset ''zero.e''))
     = Inr [Some (Ndarray [1, 4] [40, 20, 30, 40])]"
  by code_simp

text \<open>
  C3, amended: after a successful parse, for every mesh \<open>i\<close> and every node-field name (the
  last one, when a name occurs twice: the later assignment to the same key stays), the
  value stored for the mesh under \<^verbatim>\<open>('gas', name)\<close> is read from the variable
  \<^verbatim>\<open>vals_nod_var<j+1>\<close>. For a well-formed variable of \<open>T\<close> time steps by \<open>N\<close> nodes the
  value has the shape of the connectivity block, and at every position with the
  connectivity entry \<open>c\<close> it is the cell of the last time step at the index \<open>c - 1\<close>, as
  Python reads an index, cast to 64-bit float. The entries are not checked to be at least
  1: for an entry that is at least 1, as the 1-based entries of the format are, that index
  is the node \<open>c - 1\<close> itself; for an entry that is 0 or negative it is the node
  \<open>N + c - 1\<close>, counted from the end, so that the entry 0 reads the last node.
\<close>

theorem node_fields_follow_connectivity:
  assumes "ExodusIIDataset_parse_parameter_file env self = Inr s"
  shows "\<exists>conn names.
     parameters s ''connectivity'' = Some (PyList (map NDArray conn))
     \<and> parameters s ''nod_names'' = Some (PyList (map PyStr names))
     \<and> length (data s) = length conn
     \<and> (\<forall>i j. i < length conn \<and> j < length names
            \<and> (\<forall>j'. j < j' \<and> j' < length names \<longrightarrow> names ! j' \<noteq> names ! j) \<longrightarrow>
          (\<exists>raw v.
             parameters s (''vals_nod_var'' @ str_of_nat (j + 1)) = Some (NDArray raw)
             \<and> (data s ! i) (''gas'', PyStr (names ! j)) = Some v
             \<and> (\<forall>T N. shape raw = [T, N] \<and> wf_ndarray raw \<longrightarrow>
                  shape v = shape (conn ! i)
                  \<and> length (cells v) = length (cells (conn ! i))
                  \<and> (\<forall>p < length (cells (conn ! i)).
                        \<exists>q. py_index N (int_of env (cells (conn ! i) ! p) - 1) = Inr q \<and> q < N
                   \<and> cells v ! p = f8 env (cells raw ! ((T - 1) * N + q))
                   \<and> (1 \<le> int_of env (cells (conn ! i) ! p) \<longrightarrow>
                        q = nat (int_of env (cells (conn ! i) ! p) - 1))
                   \<and> (int_of env (cells (conn ! i) ! p) \<le> 0 \<longrightarrow>
                        int q = int N + int_of env (cells (conn ! i) ! p) - 1)))))"
proof -
  from assms obtain s' where s': "parse_lines_101_114 env self = Inr s'"
    and eq: "parameters s = parameters s'" "data s = data s'"
    by (rule parse_parameter_file_Inr)
  from parse_num_meshes [OF s'] obtain n where
    n: "parameters s' ''num_meshes'' = Some (PyInt (int n))"
    by blast
  from parse_connectivity [OF s'] obtain conn where
    conn: "ExodusIIDataset_load_connectivity env s' = Inr conn"
      "parameters s' ''connectivity'' = Some (PyList (map NDArray conn))"
    by blast
  from parse_names [OF s'] obtain names where
    names: "parameters s' ''nod_names'' = Some (PyList (map PyStr names))"
    by blast
  have len_conn: "length conn = n"
    using load_connectivity_Inr(1) [OF conn(1) n] .
  have dat: "length (data s') = n"
    "\<forall>i<n. load_mesh_data env (parameters s') i = Inr (data s' ! i)"
    using load_data_Inr [OF parse_data [OF s'] n] by simp_all
  have field: "\<exists>raw v.
      parameters s' (''vals_nod_var'' @ str_of_nat (j + 1)) = Some (NDArray raw)
      \<and> (data s' ! i) (''gas'', PyStr (names ! j)) = Some v
      \<and> (\<forall>T N. shape raw = [T, N] \<and> wf_ndarray raw \<longrightarrow>
           shape v = shape (conn ! i)
           \<and> length (cells v) = length (cells (conn ! i))
           \<and> (\<forall>p < length (cells (conn ! i)).
                 \<exists>q. py_index N (int_of env (cells (conn ! i) ! p) - 1) = Inr q \<and> q < N
                   \<and> cells v ! p = f8 env (cells raw ! ((T - 1) * N + q))
                   \<and> (1 \<le> int_of env (cells (conn ! i) ! p) \<longrightarrow>
                        q = nat (int_of env (cells (conn ! i) ! p) - 1))
                   \<and> (int_of env (cells (conn ! i) ! p) \<le> 0 \<longrightarrow>
                        int q = int N + int_of env (cells (conn ! i) ! p) - 1)))"
    if ij: "i < length conn \<and> j < length names
      \<and> (\<forall>j'. j < j' \<and> j' < length names \<longrightarrow> names ! j' \<noteq> names ! j)" for i j
  proof -
    let ?idx = "map (\<lambda>x. int_of env x - 1) (cells (conn ! i))"
    have mesh: "load_mesh_data env (parameters s') i = Inr (data s' ! i)"
      using dat(2) ij len_conn by simp
    from load_mesh_data_Inr [OF mesh conn(2) names, of j] ij obtain raw v where
      raw: "parameters s' (''vals_nod_var'' @ str_of_nat (j + 1)) = Some (NDArray raw)"
      and take: "last_step_take (astype (f8 env) raw) (shape (conn ! i)) ?idx = Inr v"
      and v: "(data s' ! i) (''gas'', PyStr (names ! j)) = Some v"
      by blast
    have cells: "shape v = shape (conn ! i)
        \<and> length (cells v) = length (cells (conn ! i))
        \<and> (\<forall>p < length (cells (conn ! i)).
              \<exists>q. py_index N (int_of env (cells (conn ! i) ! p) - 1) = Inr q \<and> q < N
                   \<and> cells v ! p = f8 env (cells raw ! ((T - 1) * N + q))
                   \<and> (1 \<le> int_of env (cells (conn ! i) ! p) \<longrightarrow>
                        q = nat (int_of env (cells (conn ! i) ! p) - 1))
                   \<and> (int_of env (cells (conn ! i) ! p) \<le> 0 \<longrightarrow>
                        int q = int N + int_of env (cells (conn ! i) ! p) - 1))"
      if shape: "shape raw = [T, N] \<and> wf_ndarray raw" for T N
    proof -
      have sh: "shape (astype (f8 env) raw) = [T, N]" and wf: "wf_ndarray (astype (f8 env) raw)"
        using shape by simp_all
      note facts = last_step_take_2d [OF take sh wf]
      have size: "length (cells raw) = T * N"
        using shape by (simp add: wf_ndarray_def)
      have "\<exists>q. py_index N (int_of env (cells (conn ! i) ! p) - 1) = Inr q \<and> q < N
          \<and> cells v ! p = f8 env (cells raw ! ((T - 1) * N + q))
          \<and> (1 \<le> int_of env (cells (conn ! i) ! p) \<longrightarrow>
               q = nat (int_of env (cells (conn ! i) ! p) - 1))
          \<and> (int_of env (cells (conn ! i) ! p) \<le> 0 \<longrightarrow>
               int q = int N + int_of env (cells (conn ! i) ! p) - 1)"
        if p: "p < length (cells (conn ! i))" for p
      proof -
        from facts(4) p obtain q where
          q: "py_index N (?idx ! p) = Inr q"
            "cells v ! p = cells (astype (f8 env) raw) ! ((T - 1) * N + q)"
          by auto
        have at_p: "?idx ! p = int_of env (cells (conn ! i) ! p) - 1"
          using p by simp
        have "q < N"
          using q(1) by (rule py_index_Inr)
        then have "(T - 1) * N + q < (T - 1) * N + N"
          by simp
        then have "(T - 1) * N + q < T * N"
          using facts(1) by (simp add: algebra_simps flip: mult_Suc)
        then have "cells v ! p = f8 env (cells raw ! ((T - 1) * N + q))"
          using q(2) size by simp
        moreover have "q = nat (int_of env (cells (conn ! i) ! p) - 1)"
          if "1 \<le> int_of env (cells (conn ! i) ! p)"
          using py_index_nonneg [of N "?idx ! p" q] q(1) that unfolding at_p by simp
        moreover have "int q = int N + int_of env (cells (conn ! i) ! p) - 1"
          if "int_of env (cells (conn ! i) ! p) \<le> 0"
          using py_index_neg [of N "?idx ! p" q] q(1) that unfolding at_p by simp
        ultimately show ?thesis
          using q(1) \<open>q < N\<close> unfolding at_p by blast
      qed
      then show ?thesis
        using facts(2,3) by simp
    qed
    show ?thesis
      using raw v cells by blast
  qed
  have "length (data s') = length conn"
    using dat(1) len_conn by simp
  then show ?thesis
    unfolding eq
    apply (intro exI conjI)
       apply (rule conn(2))
      apply (rule names)
     apply assumption
    apply (intro allI impI)
    apply (erule field)
    done
qed

text \<open>
  The node field \<^verbatim>\<open>u\<close> at its last time step: of \<^verbatim>\<open>mesh.e\<close>, whose connectivity
  entries are 1 to 4, and of \<^verbatim>\<open>zero.e\<close>, whose first entry is 0.
\<close>

theorem node_fields_follow_connectivity_witness:
  "(\<exists>s v. ExodusIIDataset_parse_parameter_file example_env (example_dataset ''mesh.e'') = Inr s
     \<and> (data s ! 0) (''gas'', PyStr ''u'') = Some v
     \<and> shape v = [1, 4] \<and> cells v ! 0 = 10 \<and> cells v ! 3 = 40)
   \<and> (\<exists>s v. ExodusIIDataset_parse_parameter_file example_env (example_dataset ''zero.e'') = Inr s
     \<and> (data s ! 0) (''gas'', PyStr ''u'') = Some v
     \<and> shape v = [1, 4] \<and> cells v ! 0 = 40 \<and> cells v ! 1 = 20)"
proof -
  let ?block = "Ndarray [1, 4] [1, 2, 3, 4 :: int]"
  let ?zero = "Ndarray [1, 4] [0, 2, 3, 4 :: int]"
  let ?raw = "Ndarray [2, 4] [0, 0, 0, 0, 10, 20, 30, 40 :: int]"
  have wf: "shape ?raw = [2, 4] \<and> wf_ndarray ?raw"
    by (simp add: wf_ndarray_def)
  have "case ExodusIIDataset_parse_parameter_file example_env (example_dataset ''mesh.e'') of
          Inl e \<Rightarrow> False
        | Inr s \<Rightarrow> parameters s ''connectivity'' = Some (PyList [NDArray ?block])
            \<and> parameters s ''nod_names'' = Some (PyList [PyStr ''u''])
            \<and> parameters s ''vals_nod_var1'' = Some (NDArray ?raw)"
    by code_simp
  then obtain s where
    s: "ExodusIIDataset_parse_parameter_file example_env (example_dataset ''mesh.e'') = Inr s"
      "parameters s ''connectivity'' = Some (PyList [NDArray ?block])"
      "parameters s ''nod_names'' = Some (PyList [PyStr ''u''])"
      "parameters s ''vals_nod_var1'' = Some (NDArray ?raw)"
    by (auto split: sum.splits)
  from node_fields_follow_connectivity [OF s(1)] obtain conns namess where
    cs: "parameters s ''connectivity'' = Some (PyList (map NDArray conns))"
      "parameters s ''nod_names'' = Some (PyList (map PyStr namess))"
    and fieldss: "\<forall>i j. i < length conns \<and> j < length namess
        \<and> (\<forall>j'. j < j' \<and> j' < length namess \<longrightarrow> namess ! j' \<noteq> namess ! j) \<longrightarrow>
      (\<exists>raw v.
         parameters s (''vals_nod_var'' @ str_of_nat (j + 1)) = Some (NDArray raw)
         \<and> (data s ! i) (''gas'', PyStr (namess ! j)) = Some v
         \<and> (\<forall>T N. shape raw = [T, N] \<and> wf_ndarray raw \<longrightarrow>
              shape v = shape (conns ! i)
              \<and> length (cells v) = length (cells (conns ! i))
              \<and> (\<forall>p < length (cells (conns ! i)).
                    \<exists>q. py_index N (int_of example_env (cells (conns ! i) ! p) - 1) = Inr q \<and> q < N
                   \<and> cells v ! p = f8 example_env (cells raw ! ((T - 1) * N + q))
                   \<and> (1 \<le> int_of example_env (cells (conns ! i) ! p) \<longrightarrow>
                        q = nat (int_of example_env (cells (conns ! i) ! p) - 1))
                   \<and> (int_of example_env (cells (conns ! i) ! p) \<le> 0 \<longrightarrow>
                        int q = int N + int_of example_env (cells (conns ! i) ! p) - 1))))"
    by blast
  have conns: "conns = [?block]" and namess: "namess = [''u'']"
    using cs s(2,3) by (auto simp: map_eq_Cons_conv)
  from fieldss [rule_format, of 0 0] conns namess s(4) obtain v where
    v: "(data s ! 0) (''gas'', PyStr ''u'') = Some v"
    and cellss: "\<forall>T N. shape ?raw = [T, N] \<and> wf_ndarray ?raw \<longrightarrow>
        shape v = shape ?block
        \<and> (\<forall>p < length (cells ?block).
              \<exists>q. py_index N (int_of example_env (cells ?block ! p) - 1) = Inr q \<and> q < N
                   \<and> cells v ! p = f8 example_env (cells ?raw ! ((T - 1) * N + q))
                   \<and> (1 \<le> int_of example_env (cells ?block ! p) \<longrightarrow>
                        q = nat (int_of example_env (cells ?block ! p) - 1))
                   \<and> (int_of example_env (cells ?block ! p) \<le> 0 \<longrightarrow>
                        int q = int N + int_of example_env (cells ?block ! p) - 1))"
    by (auto simp: str_of_nat.simps)
  note ats = cellss [rule_format, OF wf, THEN conjunct2, rule_format]
  have shs: "shape v = [1, 4]"
    using cellss [rule_format, OF wf] by simp
  have first: "cells v ! 0 = 10" "cells v ! 3 = 40"
    using ats [of 0] ats [of 3] by (auto simp: example_env_def)
  have "case ExodusIIDataset_parse_parameter_file example_env (example_dataset ''zero.e'') of
          Inl e \<Rightarrow> False
        | Inr s \<Rightarrow> parameters s ''connectivity'' = Some (PyList [NDArray ?zero])
            \<and> parameters s ''nod_names'' = Some (PyList [PyStr ''u''])
            \<and> parameters s ''vals_nod_var1'' = Some (NDArray ?raw)"
    by code_simp
  then obtain z where
    z: "ExodusIIDataset_parse_parameter_file example_env (example_dataset ''zero.e'') = Inr z"
      "parameters z ''connectivity'' = Some (PyList [NDArray ?zero])"
      "parameters z ''nod_names'' = Some (PyList [PyStr ''u''])"
      "parameters z ''vals_nod_var1'' = Some (NDArray ?raw)"
    by (auto split: sum.splits)
  from node_fields_follow_connectivity [OF z(1)] obtain connz namesz where
    cz: "parameters z ''connectivity'' = Some (PyList (map NDArray connz))"
      "parameters z ''nod_names'' = Some (PyList (map PyStr namesz))"
    and fieldsz: "\<forall>i j. i < length connz \<and> j < length namesz
        \<and> (\<forall>j'. j < j' \<and> j' < length namesz \<longrightarrow> namesz ! j' \<noteq> namesz ! j) \<longrightarrow>
      (\<exists>raw v.
         parameters z (''vals_nod_var'' @ str_of_nat (j + 1)) = Some (NDArray raw)
         \<and> (data z ! i) (''gas'', PyStr (namesz ! j)) = Some v
         \<and> (\<forall>T N. shape raw = [T, N] \<and> wf_ndarray raw \<longrightarrow>
              shape v = shape (connz ! i)
              \<and> length (cells v) = length (cells (connz ! i))
              \<and> (\<forall>p < length (cells (connz ! i)).
                    \<exists>q. py_index N (int_of example_env (cells (connz ! i) ! p) - 1) = Inr q \<and> q < N
                   \<and> cells v ! p = f8 example_env (cells raw ! ((T - 1) * N + q))
                   \<and> (1 \<le> int_of example_env (cells (connz ! i) ! p) \<longrightarrow>
                        q = nat (int_of example_env (cells (connz ! i) ! p) - 1))
                   \<and> (int_of example_env (cells (connz ! i) ! p) \<le> 0 \<longrightarrow>
                        int q = int N + int_of example_env (cells (connz ! i) ! p) - 1))))"
    by blast
  have connz: "connz = [?zero]" and namesz: "namesz = [''u'']"
    using cz z(2,3) by (auto simp: map_eq_Cons_conv)
  from fieldsz [rule_format, of 0 0] connz namesz z(4) obtain w where
    w: "(data z ! 0) (''gas'', PyStr ''u'') = Some w"
    and cellsz: "\<forall>T N. shape ?raw = [T, N] \<and> wf_ndarray ?raw \<longrightarrow>
        shape w = shape ?zero
        \<and> (\<forall>p < length (cells ?zero).
              \<exists>q. py_index N (int_of example_env (cells ?zero ! p) - 1) = Inr q \<and> q < N
                   \<and> cells w ! p = f8 example_env (cells ?raw ! ((T - 1) * N + q))
                   \<and> (1 \<le> int_of example_env (cells ?zero ! p) \<longrightarrow>
                        q = nat (int_of example_env (cells ?zero ! p) - 1))
                   \<and> (int_of example_env (cells ?zero ! p) \<le> 0 \<longrightarrow>
                        int q = int N + int_of example_env (cells ?zero ! p) - 1))"
    by (auto simp: str_of_nat.simps)
  note atz = cellsz [rule_format, OF wf, THEN conjunct2, rule_format]
  have shz: "shape w = [1, 4]"
    using cellsz [rule_format, OF wf] by simp
  have second: "cells w ! 0 = 40" "cells w ! 1 = 20"
    using atz [of 0] atz [of 1] by (auto simp: example_env_def)
  show ?thesis
    using s(1) v shs first z(1) w shz second by blast
qed
end
